theory Spec2Isabelle
  imports Main "HOL-Library.Word" "HOL-Library.Char_ord"
begin

unbundle bit_operations_syntax

section \<open>Data model of the configuration console (console\_prompt.c)\<close>

type_synonym u8 = "8 word"
type_synonym u16 = "16 word"
type_synonym u32 = "32 word"

text \<open>
  \<open>fixed_t\<close> is a struct around one signed 32-bit integer (the source builds values as
  \<open>(fixed_t){ input }\<close>); it is kept as its bit pattern and read with \<open>sint\<close>.
\<close>

type_synonym fixed_t = "32 word"

text \<open>
  The status codes of error.h that console\_prompt.c names. A status the collaborators
  may return beyond these is \<open>E_OTHER\<close>. \<open>E_SUCCESS\<close> is the zero status: the source's
  \<open>if (error)\<close> is \<open>error \<noteq> E_SUCCESS\<close>.
\<close>

datatype error_t =
  E_SUCCESS | E_ARG_FORMAT | E_MISSING_ARGS | E_NOCONFIG | E_FLASH_WRITE | E_OTHER nat

text \<open>
  Modelled from the spec: the declarations of config.h lie outside console\_prompt.c.
  The fields are those console\_prompt.c reads and writes; the widths follow section 3 of the
  specification (16-bit heat limits) and the widths show\_status\_prompt prints (a three digit
  address, two digit channel numbers).
\<close>

record led_info_t =
  channels :: "u8 list"
  color_matrix :: "fixed_t list"
  peak_Y :: "fixed_t list"

record config_t =
  my_address :: u8
  heat_limit :: "u16 list"
  led_infos :: "led_info_t list"

datatype console_event = Write string | Uint_d nat

datatype pwm_call = SetBrightness u8 u16 | SendFrame

text \<open>
  Everything the console touches: the global \<open>config\<close>, the lines console\_getline will
  deliver, the integers the operator enters at console\_ask\_int prompts, what has been written
  to the console, the calls made to the PWM module and the configurations handed to
  save\_config.
\<close>

record world =
  config :: config_t
  lines_in :: "string list"
  answers :: "u32 list"
  console_log :: "console_event list"
  pwm_calls :: "pwm_call list"
  flash_writes :: "config_t list"

text \<open>
  The build constants and the collaborators of other modules that console\_prompt.c uses
  and that lie outside it. They are parameters of the model: the
  constants of config.h, the stringified constants inside the messages, and what pwm.c,
  color.c, fixedpoint.c and config.c answer.
\<close>

record extern =
  MODULE_LENGTH :: int
  RGB_LED_COUNT :: int
  HEAT_SENSOR_LEN :: int
  CONSOLE_READ_BASE :: nat
  XSTR_MODULE_LENGTH :: string
  XSTR_RGB_LED_COUNT :: string
  XSTR_HEAT_SENSOR_LEN :: string
  convert_channel_index :: "int \<Rightarrow> u8"
  pwm_set_brightness_status :: "pwm_call list \<Rightarrow> u8 \<Rightarrow> u16 \<Rightarrow> error_t"
  pwm_send_frame_status :: "pwm_call list \<Rightarrow> error_t"
  color_correct :: "led_info_t \<Rightarrow> int \<Rightarrow> int \<Rightarrow> int \<Rightarrow> u16 list"
  invert_3x3 :: "fixed_t list \<Rightarrow> fixed_t list"
  load_config_result :: "config_t list \<Rightarrow> config_t \<Rightarrow> error_t \<times> config_t"
  save_config_status :: "config_t list \<Rightarrow> config_t \<Rightarrow> error_t"
  config_valid :: "config_t \<Rightarrow> bool"

text \<open>
  A call either returns, or waits for input that never comes (console\_getline blocks), or
  resets the processor, or runs out of the fuel that bounds the nesting of the
  dispatcher.
\<close>

datatype 'a outcome = Done 'a | Blocked | Halted | OutOfFuel

section \<open>Messages\<close>

definition CRLF :: string where
  "CRLF = [CHR 0x0D, CHR 0x0A]"

definition ADDR_OUT_OF_RANGE :: string where
  "ADDR_OUT_OF_RANGE = ''Address out of range (0x00 to 0xfd)'' @ CRLF"

definition WARN_BROADCAST_ADDR :: string where
  "WARN_BROADCAST_ADDR = ''Warning: Setting address to broadcast'' @ CRLF"

definition CHANNEL_OUT_OF_RANGE :: "extern \<Rightarrow> string" where
  "CHANNEL_OUT_OF_RANGE X =
     ''PWM channel index out of range (0 to '' @ XSTR_MODULE_LENGTH X @ ''-1)'' @ CRLF"

definition LED_OUT_OF_RANGE :: "extern \<Rightarrow> string" where
  "LED_OUT_OF_RANGE X =
     ''RGB LED index out of range (0 to '' @ XSTR_RGB_LED_COUNT X @ ''-1)'' @ CRLF"

definition BRIGHTNESS_OUT_OF_RANGE :: string where
  "BRIGHTNESS_OUT_OF_RANGE = ''Brightness out of range (0 to 0xffff)'' @ CRLF"

definition SENSOR_OUT_OF_RANGE :: "extern \<Rightarrow> string" where
  "SENSOR_OUT_OF_RANGE X =
     ''Heat sensor index out of range (0 to '' @ XSTR_HEAT_SENSOR_LEN X @ ''-1)'' @ CRLF"

definition HEAT_LIMIT_OUT_OF_RANGE :: string where
  "HEAT_LIMIT_OUT_OF_RANGE = ''Heat limit out of range (0 to 0xffff)'' @ CRLF"

definition NO_CONFIG_FOUND :: string where
  "NO_CONFIG_FOUND = ''No configuration in flash'' @ CRLF"

definition UNKNOWN_FLASH_ERROR :: string where
  "UNKNOWN_FLASH_ERROR = ''Internal flash error'' @ CRLF"

definition FLASH_WRITE_FAILED :: string where
  "FLASH_WRITE_FAILED = ''Writing to flash failed.'' @ CRLF"

definition CONFIG_IS_INVALID :: string where
  "CONFIG_IS_INVALID = ''Invalid configuration state.'' @ CRLF"

definition RELOADING_CONFIG :: string where
  "RELOADING_CONFIG = ''Reloading configuration...'' @ CRLF"

definition SAVING_CONFIG :: string where
  "SAVING_CONFIG = ''Saving configuration...'' @ CRLF"

definition BEGINNING_ECHO :: string where
  "BEGINNING_ECHO = ''Echoing... Finish with q on a single line'' @ CRLF"

definition PASTE_NOW :: string where
  "PASTE_NOW = ''Paste a file with one command per line, finish with q'' @ CRLF"

definition ENTER_MATRIX :: string where
  "ENTER_MATRIX = ''Enter correction matrix'' @ CRLF"

definition ENTER_MAX_Y :: string where
  "ENTER_MAX_Y = ''Enter maximum Y value'' @ CRLF"

definition COLOR_NAMES :: "string list" where
  "COLOR_NAMES = [''red'' @ CRLF, ''green'' @ CRLF, ''blue'' @ CRLF]"

definition VALUE_NAMES :: "string list" where
  "VALUE_NAMES = [''x (in 65536ths) = '', ''y (in 65536ths) = '', ''Y (integer part) = '',
     ''Y (fractional part in 65536ths) = '']"

definition WRONG_COMMAND :: string where
  "WRONG_COMMAND = ''Unknown command'' @ CRLF"

definition ARGUMENTS_ARE_MISSING :: string where
  "ARGUMENTS_ARE_MISSING = ''Not enough arguments'' @ CRLF"

definition ARGUMENTS_ARE_INVALID :: string where
  "ARGUMENTS_ARE_INVALID = ''Argument not a valid integer'' @ CRLF"

definition UNKNOWN_PARSER_ERROR :: string where
  "UNKNOWN_PARSER_ERROR = ''Error occurred while parsing input'' @ CRLF"

definition ERROR_RUNNING_COMMAND :: string where
  "ERROR_RUNNING_COMMAND = ''Error occured while running command'' @ CRLF"

definition USAGE :: string where
  "USAGE = ''Usage: ''"

section \<open>Collaborators of console.c, pwm.c, config.c and fixedpoint.c\<close>

definition console_write :: "string \<Rightarrow> world \<Rightarrow> world" where
  "console_write s w = w\<lparr>console_log := console_log w @ [Write s]\<rparr>"

definition console_uint_d :: "nat \<Rightarrow> world \<Rightarrow> world" where
  "console_uint_d n w = w\<lparr>console_log := console_log w @ [Uint_d n]\<rparr>"

text \<open>
  console\_getline delivers the next line of the input stream (without its terminator) and
  waits for ever when there is none.
\<close>

definition console_getline :: "world \<Rightarrow> (string \<times> world) outcome" where
  "console_getline w =
     (case lines_in w of
        [] \<Rightarrow> Blocked
      | l # ls \<Rightarrow> Done (l, w\<lparr>lines_in := ls\<rparr>))"

text \<open>
  Modelled from the spec: console\_ask\_int is defined in console.c, outside console\_prompt.c.
  Section 4.3 has it prompt for an integer; it writes the prompt and returns the next
  integer the operator enters, which the model takes from \<open>answers\<close>.
\<close>

definition console_ask_int :: "string \<Rightarrow> nat \<Rightarrow> world \<Rightarrow> (u32 \<times> world) outcome" where
  "console_ask_int prompt base w =
     (let w1 = console_write prompt w in
      case answers w1 of
        [] \<Rightarrow> Blocked
      | a # as \<Rightarrow> Done (a, w1\<lparr>answers := as\<rparr>))"

definition pwm_set_brightness :: "extern \<Rightarrow> u8 \<Rightarrow> u16 \<Rightarrow> world \<Rightarrow> error_t \<times> world" where
  "pwm_set_brightness X ch v w =
     (pwm_set_brightness_status X (pwm_calls w) ch v,
      w\<lparr>pwm_calls := pwm_calls w @ [SetBrightness ch v]\<rparr>)"

definition pwm_send_frame :: "extern \<Rightarrow> world \<Rightarrow> error_t \<times> world" where
  "pwm_send_frame X w =
     (pwm_send_frame_status X (pwm_calls w), w\<lparr>pwm_calls := pwm_calls w @ [SendFrame]\<rparr>)"

definition load_config :: "extern \<Rightarrow> world \<Rightarrow> error_t \<times> world" where
  "load_config X w =
     (let (e, c) = load_config_result X (flash_writes w) (config w) in (e, w\<lparr>config := c\<rparr>))"

definition save_config :: "extern \<Rightarrow> world \<Rightarrow> error_t \<times> world" where
  "save_config X w =
     (save_config_status X (flash_writes w) (config w),
      w\<lparr>flash_writes := flash_writes w @ [config w]\<rparr>)"

text \<open>
  Modelled from the spec: the constructors of fixedpoint.h lie outside console\_prompt.c.
  Section 3: from-integer scales up by \<open>2^16\<close>, from-fraction-numerator takes the
  numerator as the bit pattern (value numerator/65536), addition adds; \<open>FIXNUM(1.0)\<close> is
  the bit pattern of 1.0.
\<close>

definition fixnum :: "u32 \<Rightarrow> fixed_t" where
  "fixnum n = push_bit 16 n"

definition fixfract :: "u32 \<Rightarrow> fixed_t" where
  "fixfract n = n"

definition fixadd :: "fixed_t \<Rightarrow> fixed_t \<Rightarrow> fixed_t" where
  "fixadd a b = a + b"

definition FIXNUM_1_0 :: fixed_t where
  "FIXNUM_1_0 = 0x10000"

section \<open>Range checks\<close>

definition check_range :: "int \<Rightarrow> int \<Rightarrow> string \<Rightarrow> world \<Rightarrow> error_t \<times> world" where
  "check_range val limit message w =
     (if val < 0 \<or> val \<ge> limit then (E_ARG_FORMAT, console_write message w)
      else (E_SUCCESS, w))"

definition check_channel_index :: "extern \<Rightarrow> int \<Rightarrow> string \<Rightarrow> world \<Rightarrow> error_t \<times> world" where
  "check_channel_index X index message w = check_range index (MODULE_LENGTH X) message w"

definition check_led_index :: "extern \<Rightarrow> int \<Rightarrow> string \<Rightarrow> world \<Rightarrow> error_t \<times> world" where
  "check_led_index X index message w = check_range index (RGB_LED_COUNT X) message w"

definition check_short :: "int \<Rightarrow> string \<Rightarrow> world \<Rightarrow> error_t \<times> world" where
  "check_short val message w = check_range val 0x10000 message w"

section \<open>Command handlers\<close>

text \<open>
  A handler receives \<open>unsigned int args[]\<close>; \<open>int x = args[i]\<close> reads the same 32 bits as
  a signed integer, which is \<open>sint\<close>. The dispatcher passes as many arguments as the
  command's \<open>arg_length\<close>, and no handler reads beyond them.
\<close>

definition run_set_addr :: "u32 list \<Rightarrow> world \<Rightarrow> (error_t \<times> world) outcome" where
  "run_set_addr args w =
     (let addr = sint (args ! 0) in
      if addr < 0 \<or> addr > 0xfd then Done (E_ARG_FORMAT, console_write ADDR_OUT_OF_RANGE w)
      else
        let w1 = (if addr = 0xfd then console_write WARN_BROADCAST_ADDR w else w) in
        Done (E_SUCCESS, w1\<lparr>config := (config w1)\<lparr>my_address := word_of_int addr\<rparr>\<rparr>))"

definition run_set_brightness :: "extern \<Rightarrow> u32 list \<Rightarrow> world \<Rightarrow> (error_t \<times> world) outcome" where
  "run_set_brightness X args w =
     (let index = sint (args ! 0);
          brightness = sint (args ! 1);
          (e1, w1) = check_channel_index X index (CHANNEL_OUT_OF_RANGE X) w
      in if e1 \<noteq> E_SUCCESS then Done (E_ARG_FORMAT, w1)
      else
        let (e2, w2) = check_short brightness BRIGHTNESS_OUT_OF_RANGE w1
        in if e2 \<noteq> E_SUCCESS then Done (E_ARG_FORMAT, w2)
        else
          let pwm_channel = convert_channel_index X index;
              (error, w3) = pwm_set_brightness X pwm_channel (word_of_int brightness) w2
          in if error \<noteq> E_SUCCESS then Done (error, w3)
          else Done (pwm_send_frame X w3))"

text \<open>The loop \<open>for (i = 0; i < 3; i++)\<close> of run\_set\_color, leaving at the first error.\<close>

function set_color_loop ::
  "extern \<Rightarrow> led_info_t \<Rightarrow> u16 list \<Rightarrow> nat \<Rightarrow> world \<Rightarrow> error_t \<times> world" where
  "set_color_loop X info rgb i w =
     (if i < 3 then
        let (error, w1) = pwm_set_brightness X (channels info ! i) (rgb ! i) w
        in if error \<noteq> E_SUCCESS then (error, w1) else set_color_loop X info rgb (Suc i) w1
      else pwm_send_frame X w)"
  by pat_completeness auto
termination
  by (relation "measure (\<lambda>(X, info, rgb, i, w). 3 - i)") auto

definition run_set_color :: "extern \<Rightarrow> u32 list \<Rightarrow> world \<Rightarrow> (error_t \<times> world) outcome" where
  "run_set_color X args w =
     (let index = sint (args ! 0);
          x = sint (args ! 1);
          y = sint (args ! 2);
          Y = sint (args ! 3);
          (e1, w1) = check_led_index X index (LED_OUT_OF_RANGE X) w
      in if e1 \<noteq> E_SUCCESS then Done (E_ARG_FORMAT, w1)
      else
        let info = led_infos (config w1) ! nat index;
            rgb = color_correct X info x y Y;
            w2 = console_write ''Color correction: '' w1;
            w3 = console_write '' '' (console_uint_d (unat (rgb ! 0)) w2);
            w4 = console_write '' '' (console_uint_d (unat (rgb ! 1)) w3);
            w5 = console_write CRLF (console_uint_d (unat (rgb ! 2)) w4)
        in Done (set_color_loop X info rgb 0 w5))"

text \<open>
  run\_echo: \<open>do { console_getline(buf, 80); } while (buf[0] == 'q' && buf[1] == '\0');\<close>
  The loop goes on as long as the line read is exactly \<open>q\<close>.
\<close>

fun echo_loop :: "string list \<Rightarrow> string list outcome" where
  "echo_loop [] = Blocked"
| "echo_loop (buf # rest) = (if buf = ''q'' then echo_loop rest else Done rest)"

definition run_echo :: "u32 list \<Rightarrow> world \<Rightarrow> (error_t \<times> world) outcome" where
  "run_echo args w =
     (let w1 = console_write BEGINNING_ECHO w in
      case echo_loop (lines_in w1) of
        Done rest \<Rightarrow> Done (E_SUCCESS, w1\<lparr>lines_in := rest\<rparr>)
      | Blocked \<Rightarrow> Blocked
      | Halted \<Rightarrow> Halted
      | OutOfFuel \<Rightarrow> OutOfFuel)"

definition run_set_heat_limit :: "extern \<Rightarrow> u32 list \<Rightarrow> world \<Rightarrow> (error_t \<times> world) outcome" where
  "run_set_heat_limit X args w =
     (let index = sint (args ! 0);
          limit = sint (args ! 1);
          (e1, w1) = check_range index (HEAT_SENSOR_LEN X) (SENSOR_OUT_OF_RANGE X) w
      in if e1 \<noteq> E_SUCCESS then Done (E_ARG_FORMAT, w1)
      else
        let (e2, w2) = check_short limit HEAT_LIMIT_OUT_OF_RANGE w1
        in if e2 \<noteq> E_SUCCESS then Done (E_ARG_FORMAT, w2)
        else Done (E_SUCCESS,
               w2\<lparr>config := (config w2)\<lparr>heat_limit :=
                    (heat_limit (config w2))[nat index := word_of_int limit]\<rparr>\<rparr>))"

definition run_reload_config :: "extern \<Rightarrow> u32 list \<Rightarrow> world \<Rightarrow> (error_t \<times> world) outcome" where
  "run_reload_config X args w =
     (let w1 = console_write RELOADING_CONFIG w;
          (error, w2) = load_config X w1;
          w3 = (case error of
                  E_SUCCESS \<Rightarrow> w2
                | E_NOCONFIG \<Rightarrow> console_write NO_CONFIG_FOUND w2
                | _ \<Rightarrow> console_write UNKNOWN_FLASH_ERROR w2)
      in Done (error, w3))"

text \<open>Writes to one LED's entry of \<open>config.led_infos\<close>.\<close>

definition set_color_matrix_cell :: "nat \<Rightarrow> nat \<Rightarrow> fixed_t \<Rightarrow> config_t \<Rightarrow> config_t" where
  "set_color_matrix_cell led i v c =
     c\<lparr>led_infos := (led_infos c)[led :=
        (led_infos c ! led)\<lparr>color_matrix := (color_matrix (led_infos c ! led))[i := v]\<rparr>]\<rparr>"

definition set_peak_Y_cell :: "nat \<Rightarrow> nat \<Rightarrow> fixed_t \<Rightarrow> config_t \<Rightarrow> config_t" where
  "set_peak_Y_cell led i v c =
     c\<lparr>led_infos := (led_infos c)[led :=
        (led_infos c ! led)\<lparr>peak_Y := (peak_Y (led_infos c ! led))[i := v]\<rparr>]\<rparr>"

definition set_channels_cell :: "nat \<Rightarrow> nat \<Rightarrow> u8 \<Rightarrow> config_t \<Rightarrow> config_t" where
  "set_channels_cell led i v c =
     c\<lparr>led_infos := (led_infos c)[led :=
        (led_infos c ! led)\<lparr>channels := (channels (led_infos c ! led))[i := v]\<rparr>]\<rparr>"

text \<open>
  \<open>invert_3x3(matrix, out)\<close> with \<open>out = config.led_infos[index].color_matrix\<close> writes the
  nine cells of the result there.
\<close>

definition set_color_matrix :: "nat \<Rightarrow> fixed_t list \<Rightarrow> config_t \<Rightarrow> config_t" where
  "set_color_matrix led m c =
     c\<lparr>led_infos := (led_infos c)[led := (led_infos c ! led)\<lparr>color_matrix := m\<rparr>]\<rparr>"

text \<open>The inner loop \<open>for (v = 0; v < 2; v++)\<close> of run\_calibrate\_led.\<close>

function calibrate_xy_loop ::
  "nat \<Rightarrow> nat \<Rightarrow> fixed_t list \<Rightarrow> world \<Rightarrow> (fixed_t list \<times> world) outcome" where
  "calibrate_xy_loop c v matrix w =
     (if v < 2 then
        (case console_ask_int (VALUE_NAMES ! v) 10 w of
           Done (input, w1) \<Rightarrow>
             calibrate_xy_loop c (Suc v) (matrix[3 * v + c := fixfract input]) w1
         | Blocked \<Rightarrow> Blocked
         | Halted \<Rightarrow> Halted
         | OutOfFuel \<Rightarrow> OutOfFuel)
      else Done (matrix, w))"
  by pat_completeness auto
termination
  by (relation "measure (\<lambda>(c, v, matrix, w). 2 - v)") auto

text \<open>The outer loop \<open>for (c = 0; c < 3; c++)\<close> of run\_calibrate\_led.\<close>

function calibrate_loop ::
  "nat \<Rightarrow> nat \<Rightarrow> fixed_t list \<Rightarrow> world \<Rightarrow> (fixed_t list \<times> world) outcome" where
  "calibrate_loop index c matrix w =
     (if c < 3 then
        (case calibrate_xy_loop c 0 matrix (console_write (COLOR_NAMES ! c) w) of
           Done (matrix1, w1) \<Rightarrow>
             (case console_ask_int (VALUE_NAMES ! 2) 10 w1 of
                Done (Y_int, w2) \<Rightarrow>
                  (case console_ask_int (VALUE_NAMES ! 3) 10 w2 of
                     Done (Y_frac, w3) \<Rightarrow>
                       calibrate_loop index (Suc c) matrix1
                         (w3\<lparr>config := set_peak_Y_cell index c
                               (fixadd (fixnum Y_int) (fixfract Y_frac)) (config w3)\<rparr>)
                   | Blocked \<Rightarrow> Blocked
                   | Halted \<Rightarrow> Halted
                   | OutOfFuel \<Rightarrow> OutOfFuel)
              | Blocked \<Rightarrow> Blocked
              | Halted \<Rightarrow> Halted
              | OutOfFuel \<Rightarrow> OutOfFuel)
         | Blocked \<Rightarrow> Blocked
         | Halted \<Rightarrow> Halted
         | OutOfFuel \<Rightarrow> OutOfFuel)
      else Done (matrix, w))"
  by pat_completeness auto
termination
  by (relation "measure (\<lambda>(index, c, matrix, w). 3 - c)") auto

text \<open>\<open>for (i = 0; i < 3; i++) matrix[6 + i] = FIXNUM(1.0);\<close>\<close>

function fill_homogenous :: "nat \<Rightarrow> fixed_t list \<Rightarrow> fixed_t list" where
  "fill_homogenous i matrix =
     (if i < 3 then fill_homogenous (Suc i) (matrix[6 + i := FIXNUM_1_0]) else matrix)"
  by pat_completeness auto
termination
  by (relation "measure (\<lambda>(i, matrix). 3 - i)") auto

text \<open>
  \<open>fixed_t matrix[9]\<close> is a local array without initialiser; the handler writes each of
  its nine cells before invert\_3x3 reads them, so the model starts from zeros.
\<close>

definition run_calibrate_led :: "extern \<Rightarrow> u32 list \<Rightarrow> world \<Rightarrow> (error_t \<times> world) outcome" where
  "run_calibrate_led X args w =
     (let index = sint (args ! 0);
          (e1, w1) = check_led_index X index (LED_OUT_OF_RANGE X) w
      in if e1 \<noteq> E_SUCCESS then Done (E_ARG_FORMAT, w1)
      else
        (case calibrate_loop (nat index) 0 (replicate 9 0) w1 of
           Done (matrix1, w2) \<Rightarrow>
             Done (E_SUCCESS,
               w2\<lparr>config := set_color_matrix (nat index)
                     (invert_3x3 X (fill_homogenous 0 matrix1)) (config w2)\<rparr>)
         | Blocked \<Rightarrow> Blocked
         | Halted \<Rightarrow> Halted
         | OutOfFuel \<Rightarrow> OutOfFuel))"

text \<open>The loop of run\_set\_correction: nine cells, entered in base 10.\<close>

function set_correction_loop :: "nat \<Rightarrow> nat \<Rightarrow> world \<Rightarrow> world outcome" where
  "set_correction_loop led i w =
     (if i < 9 then
        (case console_ask_int [] 10 w of
           Done (input, w1) \<Rightarrow>
             set_correction_loop led (Suc i)
               (w1\<lparr>config := set_color_matrix_cell led i input (config w1)\<rparr>)
         | Blocked \<Rightarrow> Blocked
         | Halted \<Rightarrow> Halted
         | OutOfFuel \<Rightarrow> OutOfFuel)
      else Done w)"
  by pat_completeness auto
termination
  by (relation "measure (\<lambda>(led, i, w). 9 - i)") auto

definition run_set_correction :: "extern \<Rightarrow> u32 list \<Rightarrow> world \<Rightarrow> (error_t \<times> world) outcome" where
  "run_set_correction X args w =
     (let led = sint (args ! 0);
          (e1, w1) = check_led_index X led (LED_OUT_OF_RANGE X) w
      in if e1 \<noteq> E_SUCCESS then Done (E_ARG_FORMAT, w1)
      else
        (case set_correction_loop (nat led) 0 (console_write ENTER_MATRIX w1) of
           Done w2 \<Rightarrow> Done (E_SUCCESS, w2)
         | Blocked \<Rightarrow> Blocked
         | Halted \<Rightarrow> Halted
         | OutOfFuel \<Rightarrow> OutOfFuel))"

text \<open>The two loops of run\_set\_pwm\_channels: first all three checks, then all three writes.\<close>

function check_channels_loop :: "extern \<Rightarrow> int list \<Rightarrow> nat \<Rightarrow> world \<Rightarrow> error_t \<times> world" where
  "check_channels_loop X rgb i w =
     (if i < 3 then
        let (e, w1) = check_channel_index X (rgb ! i) (CHANNEL_OUT_OF_RANGE X) w
        in if e \<noteq> E_SUCCESS then (E_ARG_FORMAT, w1) else check_channels_loop X rgb (Suc i) w1
      else (E_SUCCESS, w))"
  by pat_completeness auto
termination
  by (relation "measure (\<lambda>(X, rgb, i, w). 3 - i)") auto

function write_channels_loop :: "nat \<Rightarrow> int list \<Rightarrow> nat \<Rightarrow> config_t \<Rightarrow> config_t" where
  "write_channels_loop led rgb i c =
     (if i < 3 then
        write_channels_loop led rgb (Suc i) (set_channels_cell led i (word_of_int (rgb ! i)) c)
      else c)"
  by pat_completeness auto
termination
  by (relation "measure (\<lambda>(led, rgb, i, c). 3 - i)") auto

definition run_set_pwm_channels :: "extern \<Rightarrow> u32 list \<Rightarrow> world \<Rightarrow> (error_t \<times> world) outcome" where
  "run_set_pwm_channels X args w =
     (let led = sint (args ! 0);
          rgb = [sint (args ! 1), sint (args ! 2), sint (args ! 3)];
          (e1, w1) = check_led_index X led (LED_OUT_OF_RANGE X) w
      in if e1 \<noteq> E_SUCCESS then Done (E_ARG_FORMAT, w1)
      else
        let (e2, w2) = check_channels_loop X rgb 0 w1
        in if e2 \<noteq> E_SUCCESS then Done (E_ARG_FORMAT, w2)
        else Done (E_SUCCESS, w2\<lparr>config := write_channels_loop (nat led) rgb 0 (config w2)\<rparr>))"

definition run_quit :: "u32 list \<Rightarrow> world \<Rightarrow> (error_t \<times> world) outcome" where
  "run_quit args w = Done (E_SUCCESS, w)"

text \<open>
  run\_reset requests a system reset through \<open>SCB_AIRCR\<close>; as its comment says, it does not
  return.
\<close>

definition run_reset :: "u32 list \<Rightarrow> world \<Rightarrow> (error_t \<times> world) outcome" where
  "run_reset args w = Halted"

definition run_save_config :: "extern \<Rightarrow> u32 list \<Rightarrow> world \<Rightarrow> (error_t \<times> world) outcome" where
  "run_save_config X args w =
     (if \<not> config_valid X (config w) then Done (E_NOCONFIG, console_write CONFIG_IS_INVALID w)
      else
        let w1 = console_write SAVING_CONFIG w;
            (error, w2) = save_config X w1;
            w3 = (case error of
                    E_SUCCESS \<Rightarrow> w2
                  | E_FLASH_WRITE \<Rightarrow> console_write FLASH_WRITE_FAILED w2
                  | _ \<Rightarrow> console_write UNKNOWN_FLASH_ERROR w2)
        in Done (error, w3))"

text \<open>The loop of run\_set\_max\_Y: three cells, entered in base 16.\<close>

function set_max_Y_loop :: "nat \<Rightarrow> nat \<Rightarrow> world \<Rightarrow> world outcome" where
  "set_max_Y_loop led i w =
     (if i < 3 then
        (case console_ask_int [] 16 w of
           Done (input, w1) \<Rightarrow>
             set_max_Y_loop led (Suc i) (w1\<lparr>config := set_peak_Y_cell led i input (config w1)\<rparr>)
         | Blocked \<Rightarrow> Blocked
         | Halted \<Rightarrow> Halted
         | OutOfFuel \<Rightarrow> OutOfFuel)
      else Done w)"
  by pat_completeness auto
termination
  by (relation "measure (\<lambda>(led, i, w). 3 - i)") auto

definition run_set_max_Y :: "extern \<Rightarrow> u32 list \<Rightarrow> world \<Rightarrow> (error_t \<times> world) outcome" where
  "run_set_max_Y X args w =
     (let led = sint (args ! 0);
          (e1, w1) = check_led_index X led (LED_OUT_OF_RANGE X) w
      in if e1 \<noteq> E_SUCCESS then Done (E_ARG_FORMAT, w1)
      else
        (case set_max_Y_loop (nat led) 0 (console_write ENTER_MAX_Y w1) of
           Done w2 \<Rightarrow> Done (E_SUCCESS, w2)
         | Blocked \<Rightarrow> Blocked
         | Halted \<Rightarrow> Halted
         | OutOfFuel \<Rightarrow> OutOfFuel))"

section \<open>The command table\<close>

text \<open>
  \<open>command_handler_t\<close> is a function pointer; the table holds one of the fifteen handlers
  of this file, named here by a tag that run\_handler below resolves.
\<close>

datatype command_handler_t =
  Run_set_addr | Run_set_brightness | Run_set_color | Run_calibrate_led | Run_echo
| Run_paste_file | Run_set_heat_limit | Run_reload_config | Run_set_correction
| Run_set_pwm_channels | Run_quit | Run_reset | Run_save_config | Run_set_max_Y | Run_help

record console_command_t =
  key :: char
  arg_length :: nat
  handler :: command_handler_t
  usage :: string
  does_exit :: bool

definition commands :: "console_command_t list" where
  "commands =
    [\<lparr>key = CHR ''a'', arg_length = 1, handler = Run_set_addr,
      usage = ''a <address>: Set module address'', does_exit = False\<rparr>,
     \<lparr>key = CHR ''b'', arg_length = 2, handler = Run_set_brightness,
      usage = ''b <channel> <brightness>: Set brightness of a single PWM channel'',
      does_exit = False\<rparr>,
     \<lparr>key = CHR ''c'', arg_length = 4, handler = Run_set_color,
      usage = ''c <led> <x> <y> <Y>: Switch LED to xyY color'', does_exit = False\<rparr>,
     \<lparr>key = CHR ''C'', arg_length = 1, handler = Run_calibrate_led,
      usage = ''C <led>: Set calibration of LED'', does_exit = False\<rparr>,
     \<lparr>key = CHR ''e'', arg_length = 0, handler = Run_echo,
      usage = ''e: Begin echo mode'', does_exit = False\<rparr>,
     \<lparr>key = CHR ''f'', arg_length = 0, handler = Run_paste_file,
      usage = ''f: Paste a command file'', does_exit = False\<rparr>,
     \<lparr>key = CHR ''h'', arg_length = 2, handler = Run_set_heat_limit,
      usage = ''h <sensor> <heat-limit>: Set heat limit'', does_exit = False\<rparr>,
     \<lparr>key = CHR ''l'', arg_length = 0, handler = Run_reload_config,
      usage = ''l: Reload configuration'', does_exit = False\<rparr>,
     \<lparr>key = CHR ''m'', arg_length = 1, handler = Run_set_correction,
      usage = ''m <led>: set an LED'' @ [CHR 0x27] @ ''s correction matrix'',
      does_exit = False\<rparr>,
     \<lparr>key = CHR ''p'', arg_length = 4, handler = Run_set_pwm_channels,
      usage = ''p <led> <r-chan> <g-chan> <b-chan>: set an LED'' @ [CHR 0x27] @ ''s PWM channels'',
      does_exit = False\<rparr>,
     \<lparr>key = CHR ''q'', arg_length = 0, handler = Run_quit,
      usage = ''q: Quit to normal mode'', does_exit = True\<rparr>,
     \<lparr>key = CHR ''r'', arg_length = 0, handler = Run_reset,
      usage = ''r: Reset'', does_exit = False\<rparr>,
     \<lparr>key = CHR ''s'', arg_length = 0, handler = Run_save_config,
      usage = ''s: Save configuration'', does_exit = False\<rparr>,
     \<lparr>key = CHR ''y'', arg_length = 1, handler = Run_set_max_Y,
      usage = ''y <led-index>: Set maximum Y value for LED'', does_exit = False\<rparr>,
     \<lparr>key = CHR ''?'', arg_length = 0, handler = Run_help,
      usage = ''?: Show command usage messages'', does_exit = False\<rparr>]"

fun help_loop :: "console_command_t list \<Rightarrow> world \<Rightarrow> world" where
  "help_loop [] w = w"
| "help_loop (c # cs) w = help_loop cs (console_write CRLF (console_write (usage c) w))"

definition run_help :: "u32 list \<Rightarrow> world \<Rightarrow> (error_t \<times> world) outcome" where
  "run_help args w = Done (E_SUCCESS, console_write CRLF (help_loop commands w))"

text \<open>get\_command: the first entry of the table with the given key, or \<open>NULL\<close>.\<close>

fun get_command_from :: "console_command_t list \<Rightarrow> char \<Rightarrow> console_command_t option" where
  "get_command_from [] k = None"
| "get_command_from (c # cs) k = (if key c = k then Some c else get_command_from cs k)"

definition get_command :: "char \<Rightarrow> console_command_t option" where
  "get_command k = get_command_from commands k"

section \<open>The argument parser\<close>

definition isalnum :: "char \<Rightarrow> bool" where
  "isalnum c \<longleftrightarrow>
     (CHR ''a'' \<le> c \<and> c \<le> CHR ''z'') \<or> (CHR ''0'' \<le> c \<and> c \<le> CHR ''9'') \<or>
     (CHR ''A'' \<le> c \<and> c \<le> CHR ''Z'')"

definition isspace :: "char \<Rightarrow> bool" where
  "isspace c \<longleftrightarrow>
     c = CHR '' '' \<or> c = CHR 0x0A \<or> c = CHR 0x09 \<or> c = CHR 0x0C \<or> c = CHR 0x0B \<or>
     c = CHR 0x0D"

text \<open>
  A line is the characters in the buffer before the terminating \<open>'\0'\<close>. The source walks
  it with an index \<open>pos\<close>; the model keeps the part of the line from \<open>pos\<close> on, so that
  \<open>line[pos] == '\0'\<close> is that part being empty and \<open>SKIP_WHILE\<close>, which stops at the
  terminator because neither predicate holds of it, drops the leading characters that
  satisfy the predicate.
\<close>

definition SKIP_WHILE :: "(char \<Rightarrow> bool) \<Rightarrow> string \<Rightarrow> string" where
  "SKIP_WHILE pred s = dropWhile pred s"

text \<open>
  Modelled from the spec: parse\_int is defined in console.c, outside console\_prompt.c.
  Section 4.1: it parses one non-negative integer in the given radix, advancing the
  position, and fails with ArgumentFormatError on malformed digits; no sign and no decimal
  point. The digits are \<open>0-9\<close> and then the letters in either case; the value is
  accumulated in an \<open>unsigned int\<close>.
\<close>

definition digit_value :: "char \<Rightarrow> nat" where
  "digit_value c =
     (if CHR ''0'' \<le> c \<and> c \<le> CHR ''9'' then of_char c - 48
      else if CHR ''a'' \<le> c \<and> c \<le> CHR ''z'' then of_char c - 87
      else of_char c - 55)"

definition is_digit :: "nat \<Rightarrow> char \<Rightarrow> bool" where
  "is_digit base c \<longleftrightarrow> isalnum c \<and> digit_value c < base"

definition int_of_digits :: "nat \<Rightarrow> string \<Rightarrow> u32" where
  "int_of_digits base ds = foldl (\<lambda>acc c. acc * of_nat base + of_nat (digit_value c)) 0 ds"

definition parse_int :: "string \<Rightarrow> nat \<Rightarrow> error_t \<times> string \<times> u32" where
  "parse_int s base =
     (if takeWhile (is_digit base) s = [] then (E_ARG_FORMAT, s, 0)
      else (E_SUCCESS, dropWhile (is_digit base) s,
            int_of_digits base (takeWhile (is_digit base) s)))"

text \<open>
  The loop \<open>for (arg = 0; arg < arg_length; arg++)\<close> of parse\_args, counting the arguments
  still to read; \<open>args\<close> holds \<open>args[0] .. args[arg - 1]\<close>.
\<close>

fun parse_args_loop :: "extern \<Rightarrow> string \<Rightarrow> u32 list \<Rightarrow> nat \<Rightarrow> error_t \<times> u32 list" where
  "parse_args_loop X s args 0 = (E_SUCCESS, args)"
| "parse_args_loop X s args (Suc k) =
     (if s = [] then (E_MISSING_ARGS, args)
      else
        let (error, s1, v) = parse_int s (CONSOLE_READ_BASE X)
        in if error \<noteq> E_SUCCESS then (error, args)
        else parse_args_loop X (SKIP_WHILE isspace s1) (args @ [v]) k)"

definition parse_args :: "extern \<Rightarrow> string \<Rightarrow> nat \<Rightarrow> error_t \<times> u32 list" where
  "parse_args X line n =
     parse_args_loop X (SKIP_WHILE isspace (SKIP_WHILE isalnum line)) [] n"

section \<open>The dispatcher\<close>

text \<open>\<open>line[0]\<close>: the first character, the terminator for an empty line.\<close>

definition first_char :: "string \<Rightarrow> char" where
  "first_char line = (case line of [] \<Rightarrow> CHR 0x00 | c # _ \<Rightarrow> c)"

definition parser_diagnostic :: "error_t \<Rightarrow> string" where
  "parser_diagnostic error =
     (if error = E_MISSING_ARGS then ARGUMENTS_ARE_MISSING
      else if error = E_ARG_FORMAT then ARGUMENTS_ARE_INVALID
      else UNKNOWN_PARSER_ERROR)"

text \<open>
  run\_command\_prompt calls the handler of the command, and run\_paste\_file calls
  run\_command\_prompt again: the three are defined together. The recursion of the source
  is bounded by the stack only; here the first argument after \<open>X\<close> bounds the number of
  nested calls and loop rounds, and \<open>OutOfFuel\<close> says that the bound was too small.
\<close>

fun run_command_prompt :: "extern \<Rightarrow> nat \<Rightarrow> world \<Rightarrow> (bool \<times> world) outcome"
  and run_paste_loop :: "extern \<Rightarrow> nat \<Rightarrow> world \<Rightarrow> world outcome"
  and run_paste_file :: "extern \<Rightarrow> nat \<Rightarrow> u32 list \<Rightarrow> world \<Rightarrow> (error_t \<times> world) outcome"
  and run_handler ::
    "extern \<Rightarrow> nat \<Rightarrow> command_handler_t \<Rightarrow> u32 list \<Rightarrow> world \<Rightarrow> (error_t \<times> world) outcome"
where
  "run_command_prompt X 0 w = OutOfFuel"
| "run_command_prompt X (Suc n) w =
     (case console_getline w of
        Done (line, w1) \<Rightarrow>
          (case get_command (first_char line) of
             Some comm \<Rightarrow>
               (let (error, args) = parse_args X line (arg_length comm)
                in if error \<noteq> E_SUCCESS then
                     Done (False,
                       console_write CRLF (console_write (usage comm)
                         (console_write USAGE (console_write (parser_diagnostic error) w1))))
                   else
                     (case run_handler X n (handler comm) args w1 of
                        Done (e, w2) \<Rightarrow>
                          if e \<noteq> E_SUCCESS
                          then Done (False, console_write ERROR_RUNNING_COMMAND w2)
                          else Done (does_exit comm, w2)
                      | Blocked \<Rightarrow> Blocked
                      | Halted \<Rightarrow> Halted
                      | OutOfFuel \<Rightarrow> OutOfFuel))
           | None \<Rightarrow> Done (False, console_write WRONG_COMMAND w1))
      | Blocked \<Rightarrow> Blocked
      | Halted \<Rightarrow> Halted
      | OutOfFuel \<Rightarrow> OutOfFuel)"
| "run_paste_loop X 0 w = OutOfFuel"
| "run_paste_loop X (Suc n) w =
     (case run_command_prompt X n w of
        Done (should_exit, w1) \<Rightarrow> if \<not> should_exit then run_paste_loop X n w1 else Done w1
      | Blocked \<Rightarrow> Blocked
      | Halted \<Rightarrow> Halted
      | OutOfFuel \<Rightarrow> OutOfFuel)"
| "run_paste_file X n args w =
     (case run_paste_loop X n (console_write PASTE_NOW w) of
        Done w1 \<Rightarrow> Done (E_SUCCESS, w1)
      | Blocked \<Rightarrow> Blocked
      | Halted \<Rightarrow> Halted
      | OutOfFuel \<Rightarrow> OutOfFuel)"
| "run_handler X n Run_set_addr args w = run_set_addr args w"
| "run_handler X n Run_set_brightness args w = run_set_brightness X args w"
| "run_handler X n Run_set_color args w = run_set_color X args w"
| "run_handler X n Run_calibrate_led args w = run_calibrate_led X args w"
| "run_handler X n Run_echo args w = run_echo args w"
| "run_handler X n Run_paste_file args w = run_paste_file X n args w"
| "run_handler X n Run_set_heat_limit args w = run_set_heat_limit X args w"
| "run_handler X n Run_reload_config args w = run_reload_config X args w"
| "run_handler X n Run_set_correction args w = run_set_correction X args w"
| "run_handler X n Run_set_pwm_channels args w = run_set_pwm_channels X args w"
| "run_handler X n Run_quit args w = run_quit args w"
| "run_handler X n Run_reset args w = run_reset args w"
| "run_handler X n Run_save_config args w = run_save_config X args w"
| "run_handler X n Run_set_max_Y args w = run_set_max_Y X args w"
| "run_handler X n Run_help args w = run_help args w"

section \<open>An instance of the parameters, and what rejection means\<close>

text \<open>
  A board with five RGB LEDs, sixteen PWM channels and six heat sensors, whose collaborators
  all succeed, and a configuration for it. The examples below run the handlers on them.
\<close>

definition example_extern :: extern where
  "example_extern =
     \<lparr>MODULE_LENGTH = 16, RGB_LED_COUNT = 5, HEAT_SENSOR_LEN = 6, CONSOLE_READ_BASE = 10,
      XSTR_MODULE_LENGTH = ''16'', XSTR_RGB_LED_COUNT = ''5'', XSTR_HEAT_SENSOR_LEN = ''6'',
      convert_channel_index = (\<lambda>i. word_of_int i),
      pwm_set_brightness_status = (\<lambda>calls ch v. E_SUCCESS),
      pwm_send_frame_status = (\<lambda>calls. E_SUCCESS),
      color_correct = (\<lambda>info x y Y. [0, 0, 0]),
      invert_3x3 = (\<lambda>m. m),
      load_config_result = (\<lambda>saved c. (E_NOCONFIG, c)),
      save_config_status = (\<lambda>saved c. E_SUCCESS),
      config_valid = (\<lambda>c. my_address c < 0xfe)\<rparr>"

definition example_led :: led_info_t where
  "example_led = \<lparr>channels = [0, 1, 2], color_matrix = replicate 9 0, peak_Y = replicate 3 0\<rparr>"

definition example_world :: world where
  "example_world =
     \<lparr>config = \<lparr>my_address = 1, heat_limit = replicate 6 0, led_infos = replicate 5 example_led\<rparr>,
      lines_in = [], answers = [], console_log = [], pwm_calls = [], flash_writes = []\<rparr>"

definition invalid_world :: world where
  "invalid_world = example_world\<lparr>config := (config example_world)\<lparr>my_address := 0xff\<rparr>\<rparr>"

definition failing_flash_extern :: extern where
  "failing_flash_extern = example_extern\<lparr>save_config_status := (\<lambda>saved c. E_FLASH_WRITE)\<rparr>"

definition failing_pwm_extern :: extern where
  "failing_pwm_extern =
     example_extern\<lparr>pwm_set_brightness_status := (\<lambda>calls ch v. E_OTHER 1)\<rparr>"

text \<open>
  The same configuration with an operator about to enter the primaries of an LED: for each
  of red, green and blue the chromaticity x and y in 65536ths, then the integer and the
  fractional part of the peak luminance.
\<close>

definition calibration_world :: world where
  "calibration_world =
     example_world\<lparr>answers := [41943, 21627, 0, 13932, 19661, 39322, 0, 46871,
                                9830, 3932, 0, 4731]\<rparr>"

text \<open>
  The lines the parser properties are stated for: the command token, then for each argument
  some white space and a run of digits of the radix.
\<close>

definition wf_token :: "nat \<Rightarrow> string \<times> string \<Rightarrow> bool" where
  "wf_token base t \<longleftrightarrow>
     fst t \<noteq> [] \<and> list_all isspace (fst t) \<and> snd t \<noteq> [] \<and> list_all (is_digit base) (snd t)"

definition argument_text :: "(string \<times> string) list \<Rightarrow> string" where
  "argument_text toks = concat (map (\<lambda>t. fst t @ snd t) toks)"

text \<open>
  A handler rejects its arguments when it returns \<open>E_ARG_FORMAT\<close> and has left the
  configuration, the PWM calls, the flash and the input as they were: only the console
  log may have grown.
\<close>

definition rejected :: "(error_t \<times> world) outcome \<Rightarrow> world \<Rightarrow> bool" where
  "rejected r w \<longleftrightarrow>
     (case r of
        Done (e, w') \<Rightarrow>
          e = E_ARG_FORMAT \<and> config w' = config w \<and> pwm_calls w' = pwm_calls w \<and>
          flash_writes w' = flash_writes w \<and> lines_in w' = lines_in w \<and>
          answers w' = answers w
      | _ \<Rightarrow> False)"

definition bad_channel :: "extern \<Rightarrow> u32 \<Rightarrow> bool" where
  "bad_channel X v \<longleftrightarrow> sint v < 0 \<or> MODULE_LENGTH X \<le> sint v"

section \<open>Arithmetic of the argument conversions\<close>

lemma uint_word8_of_int:
  fixes k :: int
  assumes "0 \<le> k" "k < 256"
  shows "uint (word_of_int k :: u8) = k"
proof -
  have "uint (word_of_int k :: u8) = take_bit 8 k"
    by (simp only: uint_word_of_int_eq) simp
  also have "\<dots> = k" using assms by (simp add: take_bit_int_eq_self)
  finally show ?thesis .
qed

lemma sint_neg_of_large:
  fixes v :: u32
  assumes "2 ^ 31 \<le> unat v"
  shows "sint v < 0"
proof -
  have "int (unat v) = uint v"
    by simp
  moreover have "int (2 ^ 31) \<le> int (unat v)"
    using assms by (simp only: of_nat_le_iff)
  ultimately have lo: "2 ^ 31 \<le> uint v"
    by simp
  have hi: "uint v < 2 ^ 32"
    using uint_bounded [of v] by simp
  have "uint v div 2 ^ 31 = 1"
    using lo hi by simp
  then have "bit (uint v) 31"
    by (simp add: bit_iff_odd)
  then show ?thesis
    by (simp add: sint_uint)
qed

lemma check_range_fail:
  "val < 0 \<or> limit \<le> val \<Longrightarrow> check_range val limit m w = (E_ARG_FORMAT, console_write m w)"
  by (auto simp: check_range_def)

lemma check_range_ok:
  "0 \<le> val \<Longrightarrow> val < limit \<Longrightarrow> check_range val limit m w = (E_SUCCESS, w)"
  by (simp add: check_range_def)

lemma rejected_write: "rejected (Done (E_ARG_FORMAT, console_write m w)) w"
  by (simp add: rejected_def console_write_def)

lemma check_range_cases:
  "check_range val limit m w = (E_ARG_FORMAT, console_write m w) \<and> (val < 0 \<or> limit \<le> val) \<or>
   check_range val limit m w = (E_SUCCESS, w) \<and> 0 \<le> val \<and> val < limit"
  by (auto simp: check_range_def)

lemma set_addr_rejects:
  "sint a < 0 \<or> 0xfd < sint a \<Longrightarrow> rejected (run_set_addr [a] w) w"
  by (auto simp: run_set_addr_def Let_def rejected_write)

lemma set_brightness_rejects:
  assumes "sint c < 0 \<or> MODULE_LENGTH X \<le> sint c \<or> sint v < 0 \<or> 0x10000 \<le> sint v"
  shows "rejected (run_set_brightness X [c, v] w) w"
proof (cases "sint c < 0 \<or> MODULE_LENGTH X \<le> sint c")
  case True
  then show ?thesis
    by (simp add: run_set_brightness_def check_channel_index_def check_range_fail rejected_write)
next
  case False
  with assms have "sint v < 0 \<or> 0x10000 \<le> sint v" by blast
  with False show ?thesis
    by (simp add: run_set_brightness_def check_channel_index_def check_short_def
          check_range_fail check_range_ok rejected_write)
qed

lemma set_heat_limit_rejects:
  assumes "sint i < 0 \<or> HEAT_SENSOR_LEN X \<le> sint i \<or> sint l < 0 \<or> 0x10000 \<le> sint l"
  shows "rejected (run_set_heat_limit X [i, l] w) w"
proof (cases "sint i < 0 \<or> HEAT_SENSOR_LEN X \<le> sint i")
  case True
  then show ?thesis
    by (simp add: run_set_heat_limit_def check_range_fail rejected_write)
next
  case False
  with assms have "sint l < 0 \<or> 0x10000 \<le> sint l" by blast
  with False show ?thesis
    by (simp add: run_set_heat_limit_def check_short_def
          check_range_fail check_range_ok rejected_write)
qed

lemma check_channels_loop_fail:
  assumes "bad_channel X r \<or> bad_channel X g \<or> bad_channel X b"
  shows "check_channels_loop X [sint r, sint g, sint b] 0 w =
           (E_ARG_FORMAT, console_write (CHANNEL_OUT_OF_RANGE X) w)"
proof -
  consider "bad_channel X r"
    | "\<not> bad_channel X r" "bad_channel X g"
    | "\<not> bad_channel X r" "\<not> bad_channel X g" "bad_channel X b"
    using assms by blast
  then show ?thesis
  proof cases
    case 1
    then show ?thesis
      by (simp add: check_channels_loop.simps [of X _ 0] check_channel_index_def
            check_range_fail bad_channel_def)
  next
    case 2
    then show ?thesis
      by (simp add: check_channels_loop.simps [of X _ 0] check_channels_loop.simps [of X _ "Suc 0"]
            check_channel_index_def check_range_fail check_range_ok bad_channel_def)
  next
    case 3
    then show ?thesis
      by (simp add: check_channels_loop.simps [of X _ 0] check_channels_loop.simps [of X _ "Suc 0"]
            check_channels_loop.simps [of X _ "Suc (Suc 0)"]
            check_channel_index_def check_range_fail check_range_ok bad_channel_def)
  qed
qed

lemma set_pwm_channels_rejects:
  assumes "sint led < 0 \<or> RGB_LED_COUNT X \<le> sint led \<or>
           bad_channel X r \<or> bad_channel X g \<or> bad_channel X b"
  shows "rejected (run_set_pwm_channels X [led, r, g, b] w) w"
proof (cases "sint led < 0 \<or> RGB_LED_COUNT X \<le> sint led")
  case True
  then show ?thesis
    by (simp add: run_set_pwm_channels_def check_led_index_def check_range_fail rejected_write)
next
  case False
  with assms have "bad_channel X r \<or> bad_channel X g \<or> bad_channel X b" by blast
  with False show ?thesis
    by (simp add: run_set_pwm_channels_def check_led_index_def check_range_ok Let_def
          check_channels_loop_fail rejected_write del: check_channels_loop.simps)
qed

lemma uint_word16_of_int:
  fixes k :: int
  assumes "0 \<le> k" "k < 65536"
  shows "uint (word_of_int k :: u16) = k"
proof -
  have "uint (word_of_int k :: u16) = take_bit 16 k"
    by (simp only: uint_word_of_int_eq) simp
  also have "\<dots> = k" using assms by (simp add: take_bit_int_eq_self)
  finally show ?thesis .
qed

lemma led_index_rejects:
  assumes "sint i < 0 \<or> RGB_LED_COUNT X \<le> sint i"
  shows "rejected (run_set_color X [i, x, y, Y] w) w"
    and "rejected (run_calibrate_led X [i] w) w"
    and "rejected (run_set_correction X [i] w) w"
    and "rejected (run_set_max_Y X [i] w) w"
  using assms
  by (simp_all add: run_set_color_def run_calibrate_led_def run_set_correction_def
        run_set_max_Y_def check_led_index_def check_range_fail rejected_write)

section \<open>The set-address command\<close>

text \<open>
  Claim C2. For every address in \<open>[0, 0xFD]\<close>, run\_set\_addr returns \<open>E_SUCCESS\<close> and
  afterwards \<open>my_address\<close> is that address, and it writes the broadcast warning exactly when
  the address is \<open>0xFD\<close>. For every address outside the range (negative as an \<open>int\<close>, or
  above \<open>0xFD\<close>) it returns \<open>E_ARG_FORMAT\<close>, writes the out-of-range message and leaves
  \<open>my_address\<close> as it was.
\<close>

theorem set_addr_range:
  fixes a :: u32
  shows "(0 \<le> sint a \<and> sint a \<le> 0xfd \<longrightarrow>
           (\<exists>w'. run_set_addr [a] w = Done (E_SUCCESS, w') \<and>
                 uint (my_address (config w')) = sint a \<and>
                 console_log w' =
                   console_log w @ (if sint a = 0xfd then [Write WARN_BROADCAST_ADDR] else []))) \<and>
         (sint a < 0 \<or> 0xfd < sint a \<longrightarrow>
           (\<exists>w'. run_set_addr [a] w = Done (E_ARG_FORMAT, w') \<and>
                 my_address (config w') = my_address (config w) \<and>
                 console_log w' = console_log w @ [Write ADDR_OUT_OF_RANGE]))"
  by (auto simp: run_set_addr_def Let_def console_write_def uint_word8_of_int
           simp del: of_int_sint)

theorem set_addr_range_witness:
  "(0 \<le> sint (253 :: u32) \<and> sint (253 :: u32) \<le> 0xfd) \<and>
   (\<exists>w'. run_set_addr [253] example_world = Done (E_SUCCESS, w') \<and>
         uint (my_address (config w')) = 253 \<and>
         console_log w' = [Write WARN_BROADCAST_ADDR]) \<and>
   0xfd < sint (300 :: u32) \<and>
   (\<exists>w'. run_set_addr [300] example_world = Done (E_ARG_FORMAT, w') \<and>
         my_address (config w') = 1 \<and>
         console_log w' = [Write ADDR_OUT_OF_RANGE])"
  using set_addr_range [of 253 example_world] set_addr_range [of 300 example_world]
  by (simp add: example_world_def)

section \<open>Validation before mutation\<close>

text \<open>
  Claim C1. The commands with several arguments (\<open>p\<close>, \<open>h\<close>, \<open>b\<close>) make all their range
  checks before they write anything: whenever one of the checks fails (LED index, one of
  the three channel indices, sensor index, 16-bit value), the handler returns
  \<open>E_ARG_FORMAT\<close> and the configuration is exactly as before.
\<close>

theorem multi_argument_commands_validate_first:
  "(sint led < 0 \<or> RGB_LED_COUNT X \<le> sint led \<or>
      bad_channel X r \<or> bad_channel X g \<or> bad_channel X b \<longrightarrow>
      rejected (run_set_pwm_channels X [led, r, g, b] w) w) \<and>
   (sint i < 0 \<or> HEAT_SENSOR_LEN X \<le> sint i \<or> sint l < 0 \<or> 0x10000 \<le> sint l \<longrightarrow>
      rejected (run_set_heat_limit X [i, l] w) w) \<and>
   (bad_channel X c \<or> sint v < 0 \<or> 0x10000 \<le> sint v \<longrightarrow>
      rejected (run_set_brightness X [c, v] w) w)"
  using set_pwm_channels_rejects [of led X r g b w] set_heat_limit_rejects [of i X l w]
    set_brightness_rejects [of c X v w]
  by (simp add: bad_channel_def)

theorem multi_argument_commands_validate_first_witness:
  "bad_channel example_extern 16 \<and>
   rejected (run_set_pwm_channels example_extern [0, 3, 4, 16] example_world) example_world \<and>
   0x10000 \<le> sint (70000 :: u32) \<and>
   rejected (run_set_heat_limit example_extern [5, 70000] example_world) example_world \<and>
   0x10000 \<le> sint (65536 :: u32) \<and>
   rejected (run_set_brightness example_extern [2, 65536] example_world) example_world"
  using multi_argument_commands_validate_first
          [of 0 example_extern 3 4 16 example_world 5 70000 2 65536]
  by (simp add: bad_channel_def example_extern_def)

text \<open>
  Claim C10. An argument is an \<open>unsigned int\<close> that every handler converts to \<open>int\<close>
  before its range check. A value of \<open>2^31\<close> or more is negative after the conversion, so
  every range-checked argument position of every command (address, channel, brightness,
  LED index, sensor index, heat limit) rejects it with \<open>E_ARG_FORMAT\<close> and leaves the
  configuration unchanged.
\<close>

theorem large_arguments_rejected:
  fixes v :: u32
  assumes "2 ^ 31 \<le> unat v"
  shows "rejected (run_set_addr [v] w) w \<and>
         rejected (run_set_brightness X [v, b] w) w \<and>
         rejected (run_set_brightness X [c, v] w) w \<and>
         rejected (run_set_color X [v, x, y, Y] w) w \<and>
         rejected (run_calibrate_led X [v] w) w \<and>
         rejected (run_set_heat_limit X [v, l] w) w \<and>
         rejected (run_set_heat_limit X [i, v] w) w \<and>
         rejected (run_set_correction X [v] w) w \<and>
         rejected (run_set_pwm_channels X [v, r, g, bl] w) w \<and>
         rejected (run_set_pwm_channels X [led, v, g, bl] w) w \<and>
         rejected (run_set_pwm_channels X [led, r, v, bl] w) w \<and>
         rejected (run_set_pwm_channels X [led, r, g, v] w) w \<and>
         rejected (run_set_max_Y X [v] w) w"
proof -
  have neg: "sint v < 0"
    using assms by (rule sint_neg_of_large)
  then have bad: "bad_channel X v"
    by (simp add: bad_channel_def)
  show ?thesis
    using neg bad
    by (simp add: set_addr_rejects set_brightness_rejects led_index_rejects
          set_heat_limit_rejects set_pwm_channels_rejects)
qed

theorem large_arguments_rejected_witness:
  "2 ^ 31 \<le> unat (0x80000000 :: u32) \<and>
   rejected (run_set_addr [0x80000000] example_world) example_world \<and>
   rejected (run_set_brightness example_extern [0x80000000, 7] example_world) example_world \<and>
   rejected (run_set_brightness example_extern [2, 0x80000000] example_world) example_world \<and>
   rejected (run_set_color example_extern [0x80000000, 1, 1, 1] example_world) example_world \<and>
   rejected (run_calibrate_led example_extern [0x80000000] example_world) example_world \<and>
   rejected (run_set_heat_limit example_extern [0x80000000, 9] example_world) example_world \<and>
   rejected (run_set_heat_limit example_extern [3, 0x80000000] example_world) example_world \<and>
   rejected (run_set_correction example_extern [0x80000000] example_world) example_world \<and>
   rejected (run_set_pwm_channels example_extern [0x80000000, 4, 5, 6] example_world)
     example_world \<and>
   rejected (run_set_pwm_channels example_extern [1, 0x80000000, 5, 6] example_world)
     example_world \<and>
   rejected (run_set_pwm_channels example_extern [1, 4, 0x80000000, 6] example_world)
     example_world \<and>
   rejected (run_set_pwm_channels example_extern [1, 4, 5, 0x80000000] example_world)
     example_world \<and>
   rejected (run_set_max_Y example_extern [0x80000000] example_world) example_world"
  using large_arguments_rejected
          [where v = "0x80000000" and w = example_world and X = example_extern and b = 7
             and c = 2 and x = 1 and y = 1 and Y = 1 and l = 9 and i = 3 and r = 4
             and g = 5 and bl = 6 and led = 1]
  by simp

section \<open>The save command\<close>

text \<open>
  Claim C7. run\_save\_config calls save\_config exactly when \<open>config_valid\<close> holds of the
  current configuration. When it does not hold, the handler writes the invalid-configuration
  message and returns \<open>E_NOCONFIG\<close> without a write to flash; when it holds, the status of
  save\_config, \<open>E_FLASH_WRITE\<close> included, is the result of the command.
\<close>

theorem save_config_gated:
  "(config_valid X (config w) \<longrightarrow>
      run_save_config X args w =
        Done (save_config_status X (flash_writes w) (config w),
          w\<lparr>console_log := console_log w @ Write SAVING_CONFIG #
               (case save_config_status X (flash_writes w) (config w) of
                  E_SUCCESS \<Rightarrow> []
                | E_FLASH_WRITE \<Rightarrow> [Write FLASH_WRITE_FAILED]
                | _ \<Rightarrow> [Write UNKNOWN_FLASH_ERROR]),
             flash_writes := flash_writes w @ [config w]\<rparr>)) \<and>
   (\<not> config_valid X (config w) \<longrightarrow>
      run_save_config X args w =
        Done (E_NOCONFIG, w\<lparr>console_log := console_log w @ [Write CONFIG_IS_INVALID]\<rparr>))"
  by (auto simp: run_save_config_def save_config_def console_write_def Let_def
        split: error_t.splits)


theorem save_config_gated_witness:
  "config_valid failing_flash_extern (config example_world) \<and>
   run_save_config failing_flash_extern [] example_world =
     Done (E_FLASH_WRITE,
       example_world\<lparr>console_log := [Write SAVING_CONFIG, Write FLASH_WRITE_FAILED],
         flash_writes := [config example_world]\<rparr>) \<and>
   \<not> config_valid failing_flash_extern (config invalid_world) \<and>
   run_save_config failing_flash_extern [] invalid_world =
     Done (E_NOCONFIG, invalid_world\<lparr>console_log := [Write CONFIG_IS_INVALID]\<rparr>)"
  using save_config_gated [of failing_flash_extern example_world "[]"]
    save_config_gated [of failing_flash_extern invalid_world "[]"]
  by (simp add: failing_flash_extern_def example_extern_def example_world_def invalid_world_def)

section \<open>The set-brightness command\<close>

text \<open>
  Claim C8, as amended. When the channel index is valid and the brightness is in
  \<open>[0, 0xFFFF]\<close>, run\_set\_brightness calls pwm\_set\_brightness exactly once, with the
  channel \<open>convert_channel_index\<close> gives for the index and with the brightness; if that call
  succeeds, exactly one pwm\_send\_frame follows and its status is the result, and if it
  fails, its status is the result and no frame is sent. When the index or the brightness is
  out of range, the handler returns \<open>E_ARG_FORMAT\<close> and calls neither.
\<close>

theorem set_brightness_calls:
  "(0 \<le> sint c \<and> sint c < MODULE_LENGTH X \<and> 0 \<le> sint v \<and> sint v < 0x10000 \<longrightarrow>
      uint (word_of_int (sint v) :: u16) = sint v \<and>
      run_set_brightness X [c, v] w =
        (if pwm_set_brightness_status X (pwm_calls w)
              (convert_channel_index X (sint c)) (word_of_int (sint v)) \<noteq> E_SUCCESS
         then Done (pwm_set_brightness_status X (pwm_calls w)
                      (convert_channel_index X (sint c)) (word_of_int (sint v)),
                w\<lparr>pwm_calls := pwm_calls w @
                    [SetBrightness (convert_channel_index X (sint c)) (word_of_int (sint v))]\<rparr>)
         else Done (pwm_send_frame_status X (pwm_calls w @
                      [SetBrightness (convert_channel_index X (sint c)) (word_of_int (sint v))]),
                w\<lparr>pwm_calls := pwm_calls w @
                    [SetBrightness (convert_channel_index X (sint c)) (word_of_int (sint v)),
                     SendFrame]\<rparr>))) \<and>
   (sint c < 0 \<or> MODULE_LENGTH X \<le> sint c \<or> sint v < 0 \<or> 0x10000 \<le> sint v \<longrightarrow>
      rejected (run_set_brightness X [c, v] w) w)"
proof (intro conjI impI)
  assume ok: "0 \<le> sint c \<and> sint c < MODULE_LENGTH X \<and> 0 \<le> sint v \<and> sint v < 0x10000"
  then show "uint (word_of_int (sint v) :: u16) = sint v"
    by (simp add: uint_word16_of_int del: of_int_sint)
  from ok show "run_set_brightness X [c, v] w =
        (if pwm_set_brightness_status X (pwm_calls w)
              (convert_channel_index X (sint c)) (word_of_int (sint v)) \<noteq> E_SUCCESS
         then Done (pwm_set_brightness_status X (pwm_calls w)
                      (convert_channel_index X (sint c)) (word_of_int (sint v)),
                w\<lparr>pwm_calls := pwm_calls w @
                    [SetBrightness (convert_channel_index X (sint c)) (word_of_int (sint v))]\<rparr>)
         else Done (pwm_send_frame_status X (pwm_calls w @
                      [SetBrightness (convert_channel_index X (sint c)) (word_of_int (sint v))]),
                w\<lparr>pwm_calls := pwm_calls w @
                    [SetBrightness (convert_channel_index X (sint c)) (word_of_int (sint v)),
                     SendFrame]\<rparr>))"
    by (simp add: run_set_brightness_def check_channel_index_def check_short_def check_range_ok
          pwm_set_brightness_def pwm_send_frame_def Let_def del: of_int_sint)
next
  assume "sint c < 0 \<or> MODULE_LENGTH X \<le> sint c \<or> sint v < 0 \<or> 0x10000 \<le> sint v"
  then show "rejected (run_set_brightness X [c, v] w) w"
    by (rule set_brightness_rejects)
qed

theorem set_brightness_calls_witness:
  "(0 \<le> sint (3 :: u32) \<and> sint (3 :: u32) < MODULE_LENGTH example_extern \<and>
    0 \<le> sint (100 :: u32) \<and> sint (100 :: u32) < 0x10000) \<and>
   run_set_brightness example_extern [3, 100] example_world =
     Done (E_SUCCESS, example_world\<lparr>pwm_calls := [SetBrightness 3 100, SendFrame]\<rparr>) \<and>
   MODULE_LENGTH example_extern \<le> sint (16 :: u32) \<and>
   rejected (run_set_brightness example_extern [16, 100] example_world) example_world"
  using set_brightness_calls [of 3 example_extern 100 example_world]
    set_brightness_calls [of 16 example_extern 100 example_world]
  by (simp add: example_extern_def example_world_def)

text \<open>
  Claim C8 as stated has exactly one pwm\_send\_frame after every pwm\_set\_brightness with
  valid arguments. With a PWM module that reports an error for the brightness call, the
  handler returns that error and sends no frame.
\<close>

theorem set_brightness_without_frame:
  "run_set_brightness failing_pwm_extern [3, 100] example_world =
     Done (E_OTHER 1, example_world\<lparr>pwm_calls := [SetBrightness 3 100]\<rparr>)"
  by (simp add: run_set_brightness_def check_channel_index_def check_short_def check_range_def
        pwm_set_brightness_def failing_pwm_extern_def example_extern_def example_world_def)

section \<open>The echo command\<close>

text \<open>
  Claim C5. The echo command is to stay in echo mode until a line equal to \<open>q\<close> is read
  and then to return \<open>E_SUCCESS\<close>, as \<open>BEGINNING_ECHO\<close> announces. The loop of run\_echo
  goes on while the line read is \<open>q\<close>: on the lines \<open>hello\<close>, \<open>q\<close> it returns after
  \<open>hello\<close> and leaves the \<open>q\<close> unread, and on the single line \<open>q\<close> it reads the line and
  waits for more.
\<close>

theorem echo_leaves_at_first_other_line:
  "run_echo [] (example_world\<lparr>lines_in := [''hello'', ''q'']\<rparr>) =
     Done (E_SUCCESS,
       example_world\<lparr>lines_in := [''q''], console_log := [Write BEGINNING_ECHO]\<rparr>) \<and>
   run_echo [] (example_world\<lparr>lines_in := [''q'']\<rparr>) = Blocked"
  by (simp add: run_echo_def console_write_def example_world_def)

section \<open>The dispatcher\<close>

text \<open>The equations of the dispatcher are unfolded by hand, one call at a time.\<close>

declare run_command_prompt.simps [simp del] run_paste_loop.simps [simp del]

lemma get_command_f:
  "get_command (CHR ''f'') =
     Some \<lparr>key = CHR ''f'', arg_length = 0, handler = Run_paste_file,
       usage = ''f: Paste a command file'', does_exit = False\<rparr>"
  by (simp add: get_command_def commands_def)

lemma get_command_q:
  "get_command (CHR ''q'') =
     Some \<lparr>key = CHR ''q'', arg_length = 0, handler = Run_quit,
       usage = ''q: Quit to normal mode'', does_exit = True\<rparr>"
  by (simp add: get_command_def commands_def)

lemma parse_args_0: "parse_args X line 0 = (E_SUCCESS, [])"
  by (simp add: parse_args_def)

lemma dispatch_q:
  "lines_in w = ''q'' # ls \<Longrightarrow>
     run_command_prompt X (Suc n) w = Done (True, w\<lparr>lines_in := ls\<rparr>)"
  by (simp add: run_command_prompt.simps console_getline_def first_char_def get_command_q
        parse_args_0 run_quit_def)

lemma dispatch_f:
  "lines_in w = ''f'' # ls \<Longrightarrow>
     run_command_prompt X (Suc n) w =
       (case run_paste_loop X n (console_write PASTE_NOW (w\<lparr>lines_in := ls\<rparr>)) of
          Done w1 \<Rightarrow> Done (False, w1)
        | Blocked \<Rightarrow> Blocked
        | Halted \<Rightarrow> Halted
        | OutOfFuel \<Rightarrow> OutOfFuel)"
  by (simp add: run_command_prompt.simps console_getline_def first_char_def get_command_f
        parse_args_0 split: outcome.splits)

lemma get_command_from_mem:
  "get_command_from cs k = Some c \<Longrightarrow> c \<in> set cs \<and> key c = k"
  by (induction cs) (auto split: if_splits)

lemma only_quit_exits:
  "\<forall>c \<in> set commands. does_exit c \<longrightarrow>
     key c = CHR ''q'' \<and> handler c = Run_quit \<and> arg_length c = 0"
  by (simp add: commands_def)

lemma exiting_command:
  assumes "get_command k = Some comm" "does_exit comm"
  shows "k = CHR ''q'' \<and> handler comm = Run_quit \<and> arg_length comm = 0"
proof -
  have "comm \<in> set commands" and k: "key comm = k"
    using assms(1) get_command_from_mem by (auto simp: get_command_def)
  then show ?thesis
    using assms(2) only_quit_exits by blast
qed

lemma run_command_prompt_step:
  assumes "lines_in w = line # rest"
  shows "run_command_prompt X (Suc n) w =
     (case get_command (first_char line) of
        Some comm \<Rightarrow>
          (if fst (parse_args X line (arg_length comm)) \<noteq> E_SUCCESS then
             Done (False,
               w\<lparr>lines_in := rest,
                 console_log := console_log w @
                   [Write (parser_diagnostic (fst (parse_args X line (arg_length comm)))),
                    Write USAGE, Write (usage comm), Write CRLF]\<rparr>)
           else
             (case run_handler X n (handler comm) (snd (parse_args X line (arg_length comm)))
                     (w\<lparr>lines_in := rest\<rparr>) of
                Done (e, w2) \<Rightarrow>
                  if e \<noteq> E_SUCCESS then Done (False, console_write ERROR_RUNNING_COMMAND w2)
                  else Done (does_exit comm, w2)
              | Blocked \<Rightarrow> Blocked
              | Halted \<Rightarrow> Halted
              | OutOfFuel \<Rightarrow> OutOfFuel))
      | None \<Rightarrow> Done (False, console_write WRONG_COMMAND (w\<lparr>lines_in := rest\<rparr>)))"
  using assms
  by (simp add: run_command_prompt.simps console_getline_def console_write_def
        split: option.splits prod.splits)

text \<open>
  Claim C3. One call of run\_command\_prompt on a line returns 1 (exit) if and only if the
  line's first character is the key of a command whose arguments parse, whose handler
  returns \<open>E_SUCCESS\<close> and whose \<open>does_exit\<close> is set, which is the case exactly for the key
  \<open>q\<close>. When parse\_args fails, the message for its error is written
  (\<open>ARGUMENTS_ARE_MISSING\<close> for \<open>E_MISSING_ARGS\<close>, \<open>ARGUMENTS_ARE_INVALID\<close> for
  \<open>E_ARG_FORMAT\<close>, \<open>UNKNOWN_PARSER_ERROR\<close> for any other), then \<open>USAGE\<close>, the usage text of
  the command and a line end; nothing else changes (the handler is not called) and the
  result is 0. When the handler returns another status than \<open>E_SUCCESS\<close>,
  \<open>ERROR_RUNNING_COMMAND\<close> is written and the result is 0.
\<close>

theorem dispatcher_iteration:
  assumes "lines_in w = line # rest"
  shows "((\<exists>w'. run_command_prompt X (Suc n) w = Done (True, w')) \<longleftrightarrow>
            (\<exists>comm. get_command (first_char line) = Some comm \<and> does_exit comm \<and>
               fst (parse_args X line (arg_length comm)) = E_SUCCESS \<and>
               (\<exists>w'. run_handler X n (handler comm) (snd (parse_args X line (arg_length comm)))
                       (w\<lparr>lines_in := rest\<rparr>) = Done (E_SUCCESS, w')))) \<and>
         ((\<exists>w'. run_command_prompt X (Suc n) w = Done (True, w')) \<longleftrightarrow>
            first_char line = CHR ''q'') \<and>
         (\<forall>comm. get_command (first_char line) = Some comm \<and>
             fst (parse_args X line (arg_length comm)) \<noteq> E_SUCCESS \<longrightarrow>
             run_command_prompt X (Suc n) w =
               Done (False,
                 w\<lparr>lines_in := rest,
                   console_log := console_log w @
                     [Write (if fst (parse_args X line (arg_length comm)) = E_MISSING_ARGS
                             then ARGUMENTS_ARE_MISSING
                             else if fst (parse_args X line (arg_length comm)) = E_ARG_FORMAT
                             then ARGUMENTS_ARE_INVALID
                             else UNKNOWN_PARSER_ERROR),
                      Write USAGE, Write (usage comm), Write CRLF]\<rparr>)) \<and>
         (\<forall>comm e w2. get_command (first_char line) = Some comm \<and>
             fst (parse_args X line (arg_length comm)) = E_SUCCESS \<and>
             run_handler X n (handler comm) (snd (parse_args X line (arg_length comm)))
               (w\<lparr>lines_in := rest\<rparr>) = Done (e, w2) \<and> e \<noteq> E_SUCCESS \<longrightarrow>
             run_command_prompt X (Suc n) w =
               Done (False, console_write ERROR_RUNNING_COMMAND w2))"
proof (intro conjI)
  note step = run_command_prompt_step [OF assms, of X n]
  show exit_iff: "(\<exists>w'. run_command_prompt X (Suc n) w = Done (True, w')) \<longleftrightarrow>
            (\<exists>comm. get_command (first_char line) = Some comm \<and> does_exit comm \<and>
               fst (parse_args X line (arg_length comm)) = E_SUCCESS \<and>
               (\<exists>w'. run_handler X n (handler comm) (snd (parse_args X line (arg_length comm)))
                       (w\<lparr>lines_in := rest\<rparr>) = Done (E_SUCCESS, w')))"
    by (auto simp: step split: option.splits outcome.splits if_splits)
  show "(\<exists>w'. run_command_prompt X (Suc n) w = Done (True, w')) \<longleftrightarrow>
            first_char line = CHR ''q''"
  proof
    assume "\<exists>w'. run_command_prompt X (Suc n) w = Done (True, w')"
    then obtain comm where "get_command (first_char line) = Some comm" "does_exit comm"
      using exit_iff by blast
    then show "first_char line = CHR ''q''"
      using exiting_command by blast
  next
    assume "first_char line = CHR ''q''"
    then show "\<exists>w'. run_command_prompt X (Suc n) w = Done (True, w')"
      by (simp add: step get_command_q parse_args_0 run_quit_def)
  qed
  show "\<forall>comm. get_command (first_char line) = Some comm \<and>
             fst (parse_args X line (arg_length comm)) \<noteq> E_SUCCESS \<longrightarrow>
             run_command_prompt X (Suc n) w =
               Done (False,
                 w\<lparr>lines_in := rest,
                   console_log := console_log w @
                     [Write (if fst (parse_args X line (arg_length comm)) = E_MISSING_ARGS
                             then ARGUMENTS_ARE_MISSING
                             else if fst (parse_args X line (arg_length comm)) = E_ARG_FORMAT
                             then ARGUMENTS_ARE_INVALID
                             else UNKNOWN_PARSER_ERROR),
                      Write USAGE, Write (usage comm), Write CRLF]\<rparr>)"
    by (simp add: step parser_diagnostic_def)
  show "\<forall>comm e w2. get_command (first_char line) = Some comm \<and>
             fst (parse_args X line (arg_length comm)) = E_SUCCESS \<and>
             run_handler X n (handler comm) (snd (parse_args X line (arg_length comm)))
               (w\<lparr>lines_in := rest\<rparr>) = Done (e, w2) \<and> e \<noteq> E_SUCCESS \<longrightarrow>
             run_command_prompt X (Suc n) w =
               Done (False, console_write ERROR_RUNNING_COMMAND w2)"
    by (simp add: step)
qed


lemmas console_eval =
  run_command_prompt.simps console_getline_def first_char_def get_command_def commands_def
  parse_args_def parse_int_def int_of_digits_def is_digit_def isalnum_def isspace_def digit_value_def
  SKIP_WHILE_def parser_diagnostic_def console_write_def example_world_def example_extern_def

theorem dispatcher_iteration_witness:
  "lines_in (example_world\<lparr>lines_in := [''q'']\<rparr>) = ''q'' # [] \<and>
   run_command_prompt example_extern (Suc 0) (example_world\<lparr>lines_in := [''q'']\<rparr>) =
     Done (True, example_world) \<and>
   fst (parse_args example_extern ''a'' 1) = E_MISSING_ARGS \<and>
   run_command_prompt example_extern (Suc 0) (example_world\<lparr>lines_in := [''a'']\<rparr>) =
     Done (False, example_world\<lparr>console_log :=
       [Write (''Not enough arguments'' @ [CHR 0x0D, CHR 0x0A]), Write ''Usage: '',
        Write ''a <address>: Set module address'', Write [CHR 0x0D, CHR 0x0A]]\<rparr>) \<and>
   fst (parse_args example_extern ''a x'' 1) = E_ARG_FORMAT \<and>
   run_command_prompt example_extern (Suc 0) (example_world\<lparr>lines_in := [''a x'']\<rparr>) =
     Done (False, example_world\<lparr>console_log :=
       [Write (''Argument not a valid integer'' @ [CHR 0x0D, CHR 0x0A]), Write ''Usage: '',
        Write ''a <address>: Set module address'', Write [CHR 0x0D, CHR 0x0A]]\<rparr>) \<and>
   run_command_prompt example_extern (Suc 0) (example_world\<lparr>lines_in := [''a 300'']\<rparr>) =
     Done (False, example_world\<lparr>console_log :=
       [Write ADDR_OUT_OF_RANGE,
        Write (''Error occured while running command'' @ [CHR 0x0D, CHR 0x0A])]\<rparr>) \<and>
   run_command_prompt example_extern (Suc 0) (example_world\<lparr>lines_in := [''zzz'']\<rparr>) =
     Done (False, example_world\<lparr>console_log := [Write WRONG_COMMAND]\<rparr>)"
  using dispatcher_iteration [of "example_world\<lparr>lines_in := [''q'']\<rparr>" "''q''" "[]" example_extern 0]
    dispatcher_iteration [of "example_world\<lparr>lines_in := [''a'']\<rparr>" "''a''" "[]" example_extern 0]
    dispatcher_iteration [of "example_world\<lparr>lines_in := [''a x'']\<rparr>" "''a x''" "[]"
      example_extern 0]
    dispatcher_iteration [of "example_world\<lparr>lines_in := [''a 300'']\<rparr>" "''a 300''" "[]"
      example_extern 0]
  by (simp add: console_eval run_quit_def run_set_addr_def ARGUMENTS_ARE_MISSING_def
        ARGUMENTS_ARE_INVALID_def ERROR_RUNNING_COMMAND_def USAGE_def CRLF_def)


section \<open>Paste sessions\<close>

lemma paste_loop_quit:
  "lines_in w = ''q'' # ls \<Longrightarrow>
     run_paste_loop X (Suc (Suc n)) w = Done (w\<lparr>lines_in := ls\<rparr>)"
  by (simp add: run_paste_loop.simps dispatch_q)

lemma paste_loop_nested:
  "lines_in w = replicate d ''f'' @ replicate (Suc d) ''q'' @ rest \<Longrightarrow> 2 * d + 2 \<le> n \<Longrightarrow>
     run_paste_loop X n w =
       Done (w\<lparr>lines_in := rest,
              console_log := console_log w @ replicate d (Write PASTE_NOW)\<rparr>)"
proof (induction d arbitrary: w n rest)
  case 0
  define m where "m = n - 2"
  have n: "n = Suc (Suc m)"
    using "0.prems"(2) by (simp add: m_def)
  from 0 show ?case
    by (simp add: n paste_loop_quit)
next
  case (Suc d)
  define m where "m = n - 2"
  have n: "n = Suc (Suc m)" and m: "2 * d + 2 \<le> m"
    using Suc.prems(2) by (simp_all add: m_def)
  let ?w1 = "console_write PASTE_NOW
               (w\<lparr>lines_in := replicate d ''f'' @ replicate (Suc d) ''q'' @ ''q'' # rest\<rparr>)"
  have l1: "lines_in ?w1 = replicate d ''f'' @ replicate (Suc d) ''q'' @ ''q'' # rest"
    by (simp add: console_write_def)
  have inner: "run_paste_loop X m ?w1 =
      Done (?w1\<lparr>lines_in := ''q'' # rest,
              console_log := console_log ?w1 @ replicate d (Write PASTE_NOW)\<rparr>)"
    using Suc.IH [OF l1 m] .
  have lw: "lines_in w = ''f'' # replicate d ''f'' @ replicate (Suc d) ''q'' @ ''q'' # rest"
    using Suc.prems(1) by (simp add: replicate_append_same)
  have first: "run_command_prompt X (Suc m) w =
      Done (False, ?w1\<lparr>lines_in := ''q'' # rest,
              console_log := console_log ?w1 @ replicate d (Write PASTE_NOW)\<rparr>)"
    by (simp only: dispatch_f [OF lw] inner outcome.case)
  define k where "k = m - 2"
  have k: "m = Suc (Suc k)"
    using m by (simp add: k_def)
  show ?case
    unfolding n
    apply (subst run_paste_loop.simps(2))
    apply (simp only: first)
    apply (simp add: k paste_loop_quit console_write_def replicate_append_same)
    done
qed


text \<open>
  Claim C9, as amended. A \<open>q\<close> read inside a paste session ends the innermost paste loop
  only: run\_paste\_file returns \<open>E_SUCCESS\<close>, and the call of run\_command\_prompt that ran
  \<open>f\<close> returns 0, the \<open>does_exit\<close> of \<open>f\<close>. With \<open>d + 1\<close> nested \<open>f\<close> lines it takes
  \<open>d + 1\<close> lines \<open>q\<close> to come back to the outermost call, which then returns 0 and has
  consumed exactly these lines.
\<close>

theorem quit_ends_innermost_paste_only:
  assumes "lines_in w = replicate (Suc d) ''f'' @ replicate (Suc d) ''q'' @ rest"
    and "2 * d + 3 \<le> n"
  shows "run_command_prompt X n w =
           Done (False, w\<lparr>lines_in := rest,
                   console_log := console_log w @ replicate (Suc d) (Write PASTE_NOW)\<rparr>)"
proof -
  define m where "m = n - 1"
  have n: "n = Suc m" and m: "2 * d + 2 \<le> m"
    using assms(2) by (simp_all add: m_def)
  let ?w1 = "console_write PASTE_NOW
               (w\<lparr>lines_in := replicate d ''f'' @ replicate (Suc d) ''q'' @ rest\<rparr>)"
  have l1: "lines_in ?w1 = replicate d ''f'' @ replicate (Suc d) ''q'' @ rest"
    by (simp add: console_write_def)
  have lw: "lines_in w = ''f'' # replicate d ''f'' @ replicate (Suc d) ''q'' @ rest"
    using assms(1) by simp
  have inner: "run_paste_loop X m ?w1 =
      Done (?w1\<lparr>lines_in := rest,
              console_log := console_log ?w1 @ replicate d (Write PASTE_NOW)\<rparr>)"
    by (rule paste_loop_nested [OF l1 m])
  show ?thesis
    unfolding n
    by (simp only: dispatch_f [OF lw] inner outcome.case) (simp add: console_write_def)
qed

theorem quit_ends_innermost_paste_only_witness:
  "lines_in (example_world\<lparr>lines_in := [''f'', ''f'', ''q'', ''q'', ''a 5'']\<rparr>) =
     replicate (Suc 1) ''f'' @ replicate (Suc 1) ''q'' @ [''a 5''] \<and>
   2 * 1 + 3 \<le> (5 :: nat) \<and>
   run_command_prompt example_extern 5
       (example_world\<lparr>lines_in := [''f'', ''f'', ''q'', ''q'', ''a 5'']\<rparr>) =
     Done (False, example_world\<lparr>lines_in := [''a 5''],
             console_log := [Write PASTE_NOW, Write PASTE_NOW]\<rparr>)"
  using quit_ends_innermost_paste_only
          [of "example_world\<lparr>lines_in := [''f'', ''f'', ''q'', ''q'', ''a 5'']\<rparr>" 1 "[''a 5'']" 5
              example_extern]
  by (simp add: example_world_def numeral_2_eq_2)

text \<open>
  Claim C9 as stated has the outermost call return 1 when a \<open>q\<close> is read inside a paste
  session. On the lines \<open>f\<close>, \<open>q\<close> it returns 0.
\<close>

theorem quit_in_paste_not_propagated:
  "run_command_prompt example_extern 3 (example_world\<lparr>lines_in := [''f'', ''q'']\<rparr>) =
     Done (False, example_world\<lparr>lines_in := [], console_log := [Write PASTE_NOW]\<rparr>)"
  by (simp add: numeral_3_eq_3 run_command_prompt.simps run_paste_loop.simps
        console_getline_def first_char_def get_command_def commands_def parse_args_def
        run_quit_def console_write_def example_world_def)



section \<open>The argument parser\<close>

lemma isalnum_not_isspace: "isalnum c \<Longrightarrow> \<not> isspace c"
  by (auto simp: isalnum_def isspace_def)

lemma is_digit_not_isspace: "is_digit b c \<Longrightarrow> \<not> isspace c"
  by (simp add: is_digit_def isalnum_not_isspace)

lemma parse_int_digits:
  assumes "ds \<noteq> []" "list_all (is_digit b) ds" "R = [] \<or> isspace (hd R)"
  shows "parse_int (ds @ R) b = (E_SUCCESS, R, int_of_digits b ds)"
proof -
  have all: "\<And>x. x \<in> set ds \<Longrightarrow> is_digit b x"
    using assms(2) by (simp add: list_all_iff)
  have stop: "takeWhile (is_digit b) R = []" "dropWhile (is_digit b) R = R"
    using assms(3) is_digit_not_isspace [of b "hd R"] by (cases R; auto)+
  have "takeWhile (is_digit b) (ds @ R) = ds" "dropWhile (is_digit b) (ds @ R) = R"
    using all stop by (simp_all add: takeWhile_append2 dropWhile_append2)
  then show ?thesis
    using assms(1) by (simp add: parse_int_def)
qed

lemma skip_space_token:
  assumes "list_all isspace sp" "ds \<noteq> []" "list_all (is_digit b) ds"
  shows "SKIP_WHILE isspace (sp @ ds @ R) = ds @ R"
proof -
  have all: "\<And>x. x \<in> set sp \<Longrightarrow> isspace x"
    using assms(1) by (simp add: list_all_iff)
  have "\<not> isspace (hd ds)"
    using assms(2,3) by (cases ds) (auto simp: is_digit_not_isspace)
  then have "dropWhile isspace (ds @ R) = ds @ R"
    using assms(2) by (cases ds) auto
  then show ?thesis
    using all by (simp add: SKIP_WHILE_def dropWhile_append2)
qed

lemma argument_text_led:
  assumes "list_all (wf_token b) toks" "R = [] \<or> isspace (hd R)"
  shows "argument_text toks @ R = [] \<or> isspace (hd (argument_text toks @ R))"
proof (cases toks)
  case Nil
  then show ?thesis using assms(2) by (simp add: argument_text_def)
next
  case (Cons t ts)
  then have "wf_token b t"
    using assms(1) by simp
  then have "fst t \<noteq> []" "list_all isspace (fst t)"
    by (simp_all add: wf_token_def)
  then have "isspace (hd (fst t))"
    by (cases "fst t") auto
  then show ?thesis
    using Cons \<open>fst t \<noteq> []\<close> by (simp add: argument_text_def)
qed

lemma parse_args_loop_tokens:
  assumes "list_all (wf_token (CONSOLE_READ_BASE X)) toks" "R = [] \<or> isspace (hd R)"
  shows "parse_args_loop X (SKIP_WHILE isspace (argument_text toks @ R)) args n =
           (if n \<le> length toks
            then (E_SUCCESS, args @ map (\<lambda>t. int_of_digits (CONSOLE_READ_BASE X) (snd t)) (take n toks))
            else parse_args_loop X (SKIP_WHILE isspace R)
                   (args @ map (\<lambda>t. int_of_digits (CONSOLE_READ_BASE X) (snd t)) toks)
                   (n - length toks))"
  using assms(1)
proof (induction toks arbitrary: args n)
  case Nil
  then show ?case
    by (cases n) (simp_all add: argument_text_def)
next
  case (Cons t ts)
  let ?b = "CONSOLE_READ_BASE X"
  have wt: "wf_token ?b t" and ts: "list_all (wf_token ?b) ts"
    using Cons.prems by simp_all
  have t: "fst t \<noteq> []" "list_all isspace (fst t)" "snd t \<noteq> []" "list_all (is_digit ?b) (snd t)"
    using wt by (simp_all add: wf_token_def)
  have led: "argument_text ts @ R = [] \<or> isspace (hd (argument_text ts @ R))"
    using argument_text_led [OF ts assms(2)] .
  have skip: "SKIP_WHILE isspace (argument_text (t # ts) @ R) = snd t @ argument_text ts @ R"
    using skip_space_token [OF t(2) t(3) t(4), of "argument_text ts @ R"]
    by (simp add: argument_text_def)
  have pi: "parse_int (snd t @ argument_text ts @ R) ?b =
              (E_SUCCESS, argument_text ts @ R, int_of_digits ?b (snd t))"
    using parse_int_digits [OF t(3) t(4) led] .
  show ?case
  proof (cases n)
    case 0
    then show ?thesis by simp
  next
    case (Suc k)
    show ?thesis
      unfolding Suc skip
      using t(3) by (simp add: pi Cons.IH [OF ts])
  qed
qed


lemma skip_command_token:
  assumes "list_all isalnum cmd" "B = [] \<or> isspace (hd B)"
  shows "SKIP_WHILE isalnum (cmd @ B) = B"
proof -
  have all: "\<And>x. x \<in> set cmd \<Longrightarrow> isalnum x"
    using assms(1) by (simp add: list_all_iff)
  have "dropWhile isalnum B = B"
    using assms(2) isalnum_not_isspace [of "hd B"] by (cases B) auto
  then show ?thesis
    using all by (simp add: SKIP_WHILE_def dropWhile_append2)
qed

lemma parse_args_tokens:
  assumes "list_all isalnum cmd" "list_all (wf_token (CONSOLE_READ_BASE X)) toks"
    and "R = [] \<or> isspace (hd R)" "length toks < n"
  shows "parse_args X (cmd @ argument_text toks @ R) n =
           parse_args_loop X (SKIP_WHILE isspace R)
             (map (\<lambda>t. int_of_digits (CONSOLE_READ_BASE X) (snd t)) toks) (n - length toks)"
  using assms(4)
  by (simp add: parse_args_def skip_command_token [OF assms(1) argument_text_led [OF assms(2,3)]]
        parse_args_loop_tokens [OF assms(2,3)])

text \<open>
  Claim C4, as amended. Take a line made of the command token and fewer than \<open>arg_length\<close>
  arguments, each of them white space followed by digits of the radix. If nothing but
  white space follows, parse\_args returns \<open>E_MISSING_ARGS\<close>. If, after white space, a
  character follows that is no digit of the radix, parse\_args returns \<open>E_ARG_FORMAT\<close>, as
  its comment says of a conversion that fails, however many arguments were parsed before.
\<close>

theorem parse_args_missing_or_malformed:
  assumes "list_all isalnum cmd" "list_all (wf_token (CONSOLE_READ_BASE X)) toks"
    and "length toks < n"
  shows "(list_all isspace trail \<longrightarrow>
            fst (parse_args X (cmd @ argument_text toks @ trail) n) = E_MISSING_ARGS) \<and>
         (sp \<noteq> [] \<and> list_all isspace sp \<and> \<not> isspace c \<and> \<not> is_digit (CONSOLE_READ_BASE X) c \<longrightarrow>
            fst (parse_args X (cmd @ argument_text toks @ sp @ c # junk) n) = E_ARG_FORMAT)"
proof (intro conjI impI)
  obtain k where k: "n - length toks = Suc k"
    using assms(3) by (cases "n - length toks") auto
  {
    assume sp: "list_all isspace trail"
    then have led: "trail = [] \<or> isspace (hd trail)"
      by (cases trail) auto
    have "SKIP_WHILE isspace trail = []"
      using sp by (simp add: SKIP_WHILE_def list_all_iff)
    then show "fst (parse_args X (cmd @ argument_text toks @ trail) n) = E_MISSING_ARGS"
      by (simp add: parse_args_tokens [OF assms(1,2) led assms(3)] k)
  }
  {
    assume a: "sp \<noteq> [] \<and> list_all isspace sp \<and> \<not> isspace c \<and>
               \<not> is_digit (CONSOLE_READ_BASE X) c"
    then have led: "sp @ c # junk = [] \<or> isspace (hd (sp @ c # junk))"
      by (cases sp) auto
    have "SKIP_WHILE isspace (sp @ c # junk) = c # junk"
      using a by (simp add: SKIP_WHILE_def dropWhile_append2 list_all_iff)
    then show "fst (parse_args X (cmd @ argument_text toks @ sp @ c # junk) n) = E_ARG_FORMAT"
      using a by (simp add: parse_args_tokens [OF assms(1,2) led assms(3)] k parse_int_def)
  }
qed

theorem parse_args_missing_or_malformed_witness:
  "list_all isalnum ''h'' \<and> list_all (wf_token (CONSOLE_READ_BASE example_extern)) [('' '', ''9'')] \<and>
   length [('' '', ''9'')] < (2 :: nat) \<and>
   fst (parse_args example_extern ''h 9'' 2) = E_MISSING_ARGS \<and>
   fst (parse_args example_extern ''h 9 x'' 2) = E_ARG_FORMAT"
  using parse_args_missing_or_malformed
          [of "''h''" example_extern "[('' '', ''9'')]" 2 "[]" "'' ''" "CHR ''x''" "[]"]
  by (simp add: wf_token_def argument_text_def isalnum_def isspace_def is_digit_def
        digit_value_def example_extern_def)

text \<open>
  Claim C4 as stated has \<open>E_MISSING_ARGS\<close> for every line with fewer well-formed integers
  than \<open>arg_length\<close>. The lines \<open>a x\<close> (no integer, one expected) and \<open>h 9 x\<close> (one integer,
  two expected) give \<open>E_ARG_FORMAT\<close>.
\<close>

theorem malformed_argument_is_format_error:
  "fst (parse_args example_extern ''a x'' 1) = E_ARG_FORMAT \<and>
   fst (parse_args example_extern ''h 9 x'' 2) = E_ARG_FORMAT"
  by (simp add: parse_args_def parse_int_def int_of_digits_def SKIP_WHILE_def isalnum_def
        isspace_def is_digit_def digit_value_def example_extern_def numeral_2_eq_2)

section \<open>The calibrate command\<close>

lemma fill_homogenous_9:
  "fill_homogenous 0 [a, b, c, d, e, f, g, h, i] =
     [a, b, c, d, e, f, FIXNUM_1_0, FIXNUM_1_0, FIXNUM_1_0]"
  by (simp add: numeral_3_eq_3)

lemma calibrate_loop_answers:
  assumes "answers w = [xr, yr, Yir, Yfr, xg, yg, Yig, Yfg, xb, yb, Yib, Yfb] @ rest"
  shows "calibrate_loop led 0 (replicate 9 0) w =
     Done ([fixfract xr, fixfract xg, fixfract xb, fixfract yr, fixfract yg, fixfract yb, 0, 0, 0],
       w\<lparr>answers := rest,
         console_log := console_log w @
           [Write (COLOR_NAMES ! 0), Write (VALUE_NAMES ! 0), Write (VALUE_NAMES ! 1),
            Write (VALUE_NAMES ! 2), Write (VALUE_NAMES ! 3),
            Write (COLOR_NAMES ! 1), Write (VALUE_NAMES ! 0), Write (VALUE_NAMES ! 1),
            Write (VALUE_NAMES ! 2), Write (VALUE_NAMES ! 3),
            Write (COLOR_NAMES ! 2), Write (VALUE_NAMES ! 0), Write (VALUE_NAMES ! 1),
            Write (VALUE_NAMES ! 2), Write (VALUE_NAMES ! 3)],
         config := set_peak_Y_cell led 2 (fixadd (fixnum Yib) (fixfract Yfb))
                    (set_peak_Y_cell led (Suc 0) (fixadd (fixnum Yig) (fixfract Yfg))
                      (set_peak_Y_cell led 0 (fixadd (fixnum Yir) (fixfract Yfr)) (config w)))\<rparr>)"
  using assms
  by (simp add: console_ask_int_def console_write_def numeral_3_eq_3 numeral_2_eq_2
        eval_nat_numeral)


lemma peak_Y_after_three_writes:
  assumes "led < length (led_infos c)" "length (peak_Y (led_infos c ! led)) = 3"
  shows "led_infos (set_peak_Y_cell led 2 Y2 (set_peak_Y_cell led (Suc 0) Y1 (set_peak_Y_cell led 0 Y0 c))) =
           (led_infos c)[led := (led_infos c ! led)\<lparr>peak_Y := [Y0, Y1, Y2]\<rparr>]"
proof -
  obtain p0 p1 p2 where "peak_Y (led_infos c ! led) = [p0, p1, p2]"
    using assms(2) by (auto simp: length_Suc_conv numeral_3_eq_3)
  then show ?thesis
    using assms(1) by (simp add: set_peak_Y_cell_def)
qed

text \<open>
  What the constructors of fixedpoint.h, as modelled, give: a fraction is its numerator, an
  integer part and a fraction add up to \<open>a * 65536 + b\<close> in 32 bits, and 1.0 is 65536.
\<close>

lemma fixed_point_constructors:
  "fixfract x = x" "fixadd (fixnum a) b = a * 65536 + b" "FIXNUM_1_0 = 65536"
  by (simp_all add: fixfract_def fixadd_def fixnum_def FIXNUM_1_0_def push_bit_eq_mult)

text \<open>
  Claim C6. For an LED index in range, run\_calibrate\_led reads for each of red, green and
  blue the values x, y, the integer part and the fractional part of Y, builds the row-major
  matrix whose first row holds the three x, whose second row holds the three y (each
  through \<open>fixfract\<close>, so in 65536ths) and whose third row is \<open>FIXNUM(1.0)\<close> three times, so
  that the column of a primary is \<open>[x, y, 1.0]\<close>; it stores
  \<open>fixadd(fixnum(Y_int), fixfract(Y_frac))\<close> as \<open>peak_Y\<close> of each primary, and stores what
  invert\_3x3 returns for that matrix as the \<open>color_matrix\<close> of the LED. Nothing else in
  the configuration changes.
\<close>

theorem calibrate_led_result:
  assumes "0 \<le> sint i" "sint i < RGB_LED_COUNT X"
    and "nat (sint i) < length (led_infos (config w))"
    and "length (peak_Y (led_infos (config w) ! nat (sint i))) = 3"
    and "answers w = [xr, yr, Yir, Yfr, xg, yg, Yig, Yfg, xb, yb, Yib, Yfb] @ rest"
  shows "\<exists>w'. run_calibrate_led X [i] w = Done (E_SUCCESS, w') \<and>
           led_infos (config w') =
             (led_infos (config w))[nat (sint i) :=
                (led_infos (config w) ! nat (sint i))
                  \<lparr>peak_Y :=
                     [fixadd (fixnum Yir) (fixfract Yfr),
                      fixadd (fixnum Yig) (fixfract Yfg),
                      fixadd (fixnum Yib) (fixfract Yfb)],
                   color_matrix :=
                     invert_3x3 X
                       [fixfract xr, fixfract xg, fixfract xb,
                        fixfract yr, fixfract yg, fixfract yb,
                        FIXNUM_1_0, FIXNUM_1_0, FIXNUM_1_0]\<rparr>] \<and>
           my_address (config w') = my_address (config w) \<and>
           heat_limit (config w') = heat_limit (config w) \<and>
           answers w' = rest"
proof -
  let ?led = "nat (sint i)"
  let ?c3 = "set_peak_Y_cell ?led 2 (fixadd (fixnum Yib) (fixfract Yfb))
               (set_peak_Y_cell ?led (Suc 0) (fixadd (fixnum Yig) (fixfract Yfg))
                 (set_peak_Y_cell ?led 0 (fixadd (fixnum Yir) (fixfract Yfr)) (config w)))"
  have infos: "led_infos ?c3 =
      (led_infos (config w))[?led := (led_infos (config w) ! ?led)
         \<lparr>peak_Y := [fixadd (fixnum Yir) (fixfract Yfr), fixadd (fixnum Yig) (fixfract Yfg),
                     fixadd (fixnum Yib) (fixfract Yfb)]\<rparr>]"
    using assms(3,4) by (rule peak_Y_after_three_writes)
  have rest: "my_address ?c3 = my_address (config w)" "heat_limit ?c3 = heat_limit (config w)"
    by (simp_all add: set_peak_Y_cell_def)
  have loop: "calibrate_loop ?led 0 (replicate 9 0) w =
      Done ([fixfract xr, fixfract xg, fixfract xb, fixfract yr, fixfract yg, fixfract yb, 0, 0, 0],
        w\<lparr>answers := rest,
          console_log := console_log w @
           [Write (COLOR_NAMES ! 0), Write (VALUE_NAMES ! 0), Write (VALUE_NAMES ! 1),
            Write (VALUE_NAMES ! 2), Write (VALUE_NAMES ! 3),
            Write (COLOR_NAMES ! 1), Write (VALUE_NAMES ! 0), Write (VALUE_NAMES ! 1),
            Write (VALUE_NAMES ! 2), Write (VALUE_NAMES ! 3),
            Write (COLOR_NAMES ! 2), Write (VALUE_NAMES ! 0), Write (VALUE_NAMES ! 1),
            Write (VALUE_NAMES ! 2), Write (VALUE_NAMES ! 3)],
          config := ?c3\<rparr>)"
    using assms(5) by (rule calibrate_loop_answers)
  let ?M = "[fixfract xr, fixfract xg, fixfract xb, fixfract yr, fixfract yg, fixfract yb,
             FIXNUM_1_0, FIXNUM_1_0, FIXNUM_1_0]"
  define W where "W = w\<lparr>answers := rest,
          console_log := console_log w @
           [Write (COLOR_NAMES ! 0), Write (VALUE_NAMES ! 0), Write (VALUE_NAMES ! 1),
            Write (VALUE_NAMES ! 2), Write (VALUE_NAMES ! 3),
            Write (COLOR_NAMES ! 1), Write (VALUE_NAMES ! 0), Write (VALUE_NAMES ! 1),
            Write (VALUE_NAMES ! 2), Write (VALUE_NAMES ! 3),
            Write (COLOR_NAMES ! 2), Write (VALUE_NAMES ! 0), Write (VALUE_NAMES ! 1),
            Write (VALUE_NAMES ! 2), Write (VALUE_NAMES ! 3)],
          config := set_color_matrix ?led (invert_3x3 X ?M) ?c3\<rparr>"
  have ok: "check_led_index X (sint i) (LED_OUT_OF_RANGE X) w = (E_SUCCESS, w)"
    using assms(1,2) by (simp add: check_led_index_def check_range_ok)
  have run: "run_calibrate_led X [i] w = Done (E_SUCCESS, W)"
    unfolding run_calibrate_led_def
    by (simp add: ok Let_def loop fill_homogenous_9 W_def
          del: calibrate_loop.simps fill_homogenous.simps)
  have cfg: "config W = set_color_matrix ?led (invert_3x3 X ?M) ?c3"
    by (simp add: W_def)
  have "led_infos (config W) =
      (led_infos (config w))[?led := (led_infos (config w) ! ?led)
         \<lparr>peak_Y := [fixadd (fixnum Yir) (fixfract Yfr), fixadd (fixnum Yig) (fixfract Yfg),
                      fixadd (fixnum Yib) (fixfract Yfb)],
           color_matrix := invert_3x3 X ?M\<rparr>]"
    unfolding cfg set_color_matrix_def using assms(3) by (simp add: infos)
  moreover have "my_address (config W) = my_address (config w)"
    "heat_limit (config W) = heat_limit (config w)"
    unfolding cfg set_color_matrix_def by (simp_all add: rest)
  moreover have "answers W = rest"
    by (simp add: W_def)
  ultimately show ?thesis
    using run by simp
qed

theorem calibrate_led_result_witness:
  "(0 \<le> sint (2 :: u32) \<and> sint (2 :: u32) < RGB_LED_COUNT example_extern) \<and>
   (\<exists>w'. run_calibrate_led example_extern [2] calibration_world = Done (E_SUCCESS, w') \<and>
         led_infos (config w') =
           (replicate 5 example_led)[2 := example_led
              \<lparr>peak_Y := [13932, 46871, 4731],
                color_matrix := [41943, 19661, 9830, 21627, 39322, 3932, 65536, 65536, 65536]\<rparr>])"
  using calibrate_led_result
          [of 2 example_extern calibration_world
              41943 21627 0 13932 19661 39322 0 46871 9830 3932 0 4731 "[]"]
  by (auto simp: calibration_world_def example_world_def example_extern_def example_led_def
        fixed_point_constructors)

end
